theory Spec2Isabelle
  imports Complex_Main
begin

section \<open>Geometry and spatial entities (core\_data\_structures.py)\<close>

text \<open>
  Python floats are modelled as real numbers: rounding, infinities and NaN are outside
  the model. A float division raises ZeroDivisionError exactly when the divisor is zero,
  and that is kept as a branch of the model. Python objects are modelled as values; the
  optimizer mutates only objects it has just created by \<open>Layout.copy\<close>, so no result
  depends on aliasing.
\<close>

datatype RoomType =
  LIVING_ROOM | BEDROOM | KITCHEN | BATHROOM | DINING_ROOM | STUDY | BALCONY | STORAGE | HALLWAY

datatype Orientation = NORTH | SOUTH | EAST | WEST

datatype py_error = ZeroDivisionError | IndexError | ValueError

record Point =
  pt_x :: real
  pt_y :: real

record Rectangle =
  rect_x :: real
  rect_y :: real
  width :: real
  height :: real

definition Rectangle_init :: "real \<Rightarrow> real \<Rightarrow> real \<Rightarrow> real \<Rightarrow> Rectangle" where
  "Rectangle_init a b w h = \<lparr>rect_x = a, rect_y = b, width = w, height = h\<rparr>"

definition Point_init :: "real \<Rightarrow> real \<Rightarrow> Point" where
  "Point_init a b = \<lparr>pt_x = a, pt_y = b\<rparr>"

definition Point_distance_to :: "Point \<Rightarrow> Point \<Rightarrow> real" where
  "Point_distance_to p q = sqrt ((pt_x p - pt_x q)\<^sup>2 + (pt_y p - pt_y q)\<^sup>2)"

definition Rectangle_left :: "Rectangle \<Rightarrow> real" where
  "Rectangle_left r = rect_x r"

definition Rectangle_right :: "Rectangle \<Rightarrow> real" where
  "Rectangle_right r = rect_x r + width r"

definition Rectangle_top :: "Rectangle \<Rightarrow> real" where
  "Rectangle_top r = rect_y r"

definition Rectangle_bottom :: "Rectangle \<Rightarrow> real" where
  "Rectangle_bottom r = rect_y r + height r"

definition Rectangle_center :: "Rectangle \<Rightarrow> Point" where
  "Rectangle_center r = Point_init (rect_x r + width r / 2) (rect_y r + height r / 2)"

definition Rectangle_area :: "Rectangle \<Rightarrow> real" where
  "Rectangle_area r = width r * height r"

definition Rectangle_contains_point :: "Rectangle \<Rightarrow> Point \<Rightarrow> bool" where
  "Rectangle_contains_point r p \<longleftrightarrow>
     (Rectangle_left r \<le> pt_x p \<and> pt_x p \<le> Rectangle_right r) \<and>
     (Rectangle_top r \<le> pt_y p \<and> pt_y p \<le> Rectangle_bottom r)"

definition Rectangle_intersects :: "Rectangle \<Rightarrow> Rectangle \<Rightarrow> bool" where
  "Rectangle_intersects r other \<longleftrightarrow>
     \<not> (Rectangle_right r \<le> Rectangle_left other \<or>
        Rectangle_left r \<ge> Rectangle_right other \<or>
        Rectangle_bottom r \<le> Rectangle_top other \<or>
        Rectangle_top r \<ge> Rectangle_bottom other)"

definition Rectangle_get_corners :: "Rectangle \<Rightarrow> Point list" where
  "Rectangle_get_corners r =
     [Point_init (Rectangle_left r) (Rectangle_top r),
      Point_init (Rectangle_right r) (Rectangle_top r),
      Point_init (Rectangle_right r) (Rectangle_bottom r),
      Point_init (Rectangle_left r) (Rectangle_bottom r)]"

text \<open>
  The two relations the geometry claims speak about. Two rectangles share a boundary edge
  when a side of one lies on the line of the opposite side of the other. A point is on the
  boundary of a rectangle when it is on one of the four segments between consecutive
  corners of \<open>get_corners\<close>.
\<close>

definition share_boundary_edge :: "Rectangle \<Rightarrow> Rectangle \<Rightarrow> bool" where
  "share_boundary_edge a b \<longleftrightarrow>
     Rectangle_right a = Rectangle_left b \<or> Rectangle_right b = Rectangle_left a \<or>
     Rectangle_bottom a = Rectangle_top b \<or> Rectangle_bottom b = Rectangle_top a"

definition on_edge :: "Rectangle \<Rightarrow> Point \<Rightarrow> bool" where
  "on_edge r p \<longleftrightarrow>
     ((pt_y p = Rectangle_top r \<or> pt_y p = Rectangle_bottom r) \<and>
        Rectangle_left r \<le> pt_x p \<and> pt_x p \<le> Rectangle_right r) \<or>
     ((pt_x p = Rectangle_left r \<or> pt_x p = Rectangle_right r) \<and>
        Rectangle_top r \<le> pt_y p \<and> pt_y p \<le> Rectangle_bottom r)"

record Furniture =
  fname :: string
  fwidth :: real
  fheight :: real
  can_rotate :: bool
  category :: string
  position :: Point
  is_rotated :: bool
  is_placed :: bool

definition Furniture_current_width :: "Furniture \<Rightarrow> real" where
  "Furniture_current_width f = (if is_rotated f then fheight f else fwidth f)"

definition Furniture_current_height :: "Furniture \<Rightarrow> real" where
  "Furniture_current_height f = (if is_rotated f then fwidth f else fheight f)"

text \<open>
  \<open>Room.__init__\<close> sets \<open>self.id = id(self)\<close>, the address of the new object. The
  address is not computed by the program, so the constructor of the model takes it as
  its first argument.
\<close>

record Room =
  room_type :: RoomType
  bounds :: Rectangle
  min_area :: real
  orientation :: "Orientation option"
  furniture :: "Furniture list"
  doors :: "Rectangle list"
  windows :: "Rectangle list"
  room_id :: nat

definition Room_init :: "nat \<Rightarrow> RoomType \<Rightarrow> Rectangle \<Rightarrow> real \<Rightarrow> Orientation option \<Rightarrow> Room" where
  "Room_init addr t b m ori =
     \<lparr>room_type = t, bounds = b, min_area = m, orientation = ori,
      furniture = [], doors = [], windows = [], room_id = addr\<rparr>"

definition Room_area :: "Room \<Rightarrow> real" where
  "Room_area r = Rectangle_area (bounds r)"

definition Room_used_area :: "Room \<Rightarrow> real" where
  "Room_used_area r =
     sum_list (map (\<lambda>f. Furniture_current_width f * Furniture_current_height f)
       (filter is_placed (furniture r)))"

definition Room_utilization_rate :: "Room \<Rightarrow> real" where
  "Room_utilization_rate r = (if Room_area r > 0 then Room_used_area r / Room_area r else 0)"

record Layout =
  layout_bounds :: Rectangle
  rooms :: "Room list"
  hallways :: "Rectangle list"
  fitness_score :: real
  generation_id :: int
  metadata :: "(string \<times> string) list"

definition Layout_init :: "Rectangle \<Rightarrow> Layout" where
  "Layout_init b =
     \<lparr>layout_bounds = b, rooms = [], hallways = [], fitness_score = 0,
      generation_id = 0, metadata = []\<rparr>"

definition Layout_total_area :: "Layout \<Rightarrow> real" where
  "Layout_total_area l = Rectangle_area (layout_bounds l)"

definition Layout_room_area :: "Layout \<Rightarrow> real" where
  "Layout_room_area l = sum_list (map Room_area (rooms l))"

definition Layout_hallway_area :: "Layout \<Rightarrow> real" where
  "Layout_hallway_area l = sum_list (map Rectangle_area (hallways l))"

definition Layout_utilization_rate :: "Layout \<Rightarrow> real" where
  "Layout_utilization_rate l =
     (let usable_area = Layout_room_area l + Layout_hallway_area l
      in if Layout_total_area l > 0 then usable_area / Layout_total_area l else 0)"

definition Layout_add_room :: "Layout \<Rightarrow> Room \<Rightarrow> Layout" where
  "Layout_add_room l r = l\<lparr>rooms := rooms l @ [r]\<rparr>"

definition Layout_add_hallway :: "Layout \<Rightarrow> Rectangle \<Rightarrow> Layout" where
  "Layout_add_hallway l h = l\<lparr>hallways := hallways l @ [h]\<rparr>"

definition Layout_get_rooms_by_type :: "Layout \<Rightarrow> RoomType \<Rightarrow> Room list" where
  "Layout_get_rooms_by_type l t = filter (\<lambda>room. room_type room = t) (rooms l)"

section \<open>Exceptions\<close>

text \<open>
  A computation that may raise returns \<open>Inl\<close> of the exception. \<open>py_bind\<close> sequences
  two such computations, \<open>py_div\<close> is Python's true division, and \<open>py_for\<close> is a
  \<open>for\<close> loop over a list whose body updates an accumulator and may raise.
\<close>

definition py_bind :: "py_error + 'a \<Rightarrow> ('a \<Rightarrow> py_error + 'b) \<Rightarrow> py_error + 'b" where
  "py_bind m f = (case m of Inl e \<Rightarrow> Inl e | Inr v \<Rightarrow> f v)"

definition py_div :: "real \<Rightarrow> real \<Rightarrow> py_error + real" where
  "py_div a b = (if b = 0 then Inl ZeroDivisionError else Inr (a / b))"

fun py_for :: "'a list \<Rightarrow> 's \<Rightarrow> ('a \<Rightarrow> 's \<Rightarrow> py_error + 's) \<Rightarrow> py_error + 's" where
  "py_for [] s body = Inr s"
| "py_for (a # as) s body = py_bind (body a s) (\<lambda>s'. py_for as s' body)"

section \<open>The evaluators (evaluation\_system.py)\<close>

record EvaluationConfig =
  space_efficiency_weight :: real
  lighting_weight :: real
  ventilation_weight :: real
  circulation_weight :: real
  comfort_weight :: real
  min_room_efficiency :: real
  ideal_utilization_rate :: real
  corridor_penalty_factor :: real
  max_depth_from_window :: real
  window_area_ratio :: real
  light_decay_factor :: real
  min_ventilation_path :: real
  cross_ventilation_bonus :: real
  dead_space_penalty :: real
  max_circulation_distance :: real
  intersection_penalty :: real
  connection_bonus :: real
  noise_reduction_factor :: real
  privacy_weight :: real
  social_area_bonus :: real

definition EvaluationConfig_default :: EvaluationConfig where
  "EvaluationConfig_default =
     \<lparr>space_efficiency_weight = 0.25, lighting_weight = 0.20, ventilation_weight = 0.15,
      circulation_weight = 0.20, comfort_weight = 0.20,
      min_room_efficiency = 0.4, ideal_utilization_rate = 0.75, corridor_penalty_factor = 0.8,
      max_depth_from_window = 6.0, window_area_ratio = 0.15, light_decay_factor = 0.1,
      min_ventilation_path = 2.0, cross_ventilation_bonus = 1.2, dead_space_penalty = 0.5,
      max_circulation_distance = 15.0, intersection_penalty = 0.3, connection_bonus = 0.2,
      noise_reduction_factor = 0.8, privacy_weight = 0.5, social_area_bonus = 1.1\<rparr>"

text \<open>The dictionary \<open>{room.room_type: room for room in layout.rooms}\<close>: the last room of a type wins.\<close>

definition room_dict :: "Layout \<Rightarrow> RoomType \<Rightarrow> Room option" where
  "room_dict l = map_of (rev (map (\<lambda>room. (room_type room, room)) (rooms l)))"

subsection \<open>SpaceEfficiencyEvaluator\<close>

definition evaluate_utilization_rate :: "EvaluationConfig \<Rightarrow> real \<Rightarrow> py_error + real" where
  "evaluate_utilization_rate cfg rate =
     (let ideal = ideal_utilization_rate cfg;
          deviation = \<bar>rate - ideal\<bar>
      in py_bind (py_div deviation ideal) (\<lambda>q. Inr (max 0 (1 - q))))"

definition evaluate_room_shape :: "real \<Rightarrow> real" where
  "evaluate_room_shape aspect_ratio =
     (if 0.8 \<le> aspect_ratio \<and> aspect_ratio \<le> 1.25 then 1.0
      else if 0.6 \<le> aspect_ratio \<and> aspect_ratio \<le> 1.67 then 0.8
      else 0.5)"

fun area_standards :: "RoomType \<Rightarrow> (real \<times> real) option" where
  "area_standards LIVING_ROOM = Some (15, 40)"
| "area_standards BEDROOM = Some (8, 25)"
| "area_standards KITCHEN = Some (6, 20)"
| "area_standards BATHROOM = Some (3, 12)"
| "area_standards DINING_ROOM = Some (10, 25)"
| "area_standards STUDY = Some (6, 18)"
| "area_standards _ = None"

definition evaluate_area_appropriateness :: "Room \<Rightarrow> py_error + real" where
  "evaluate_area_appropriateness room =
     (case (case area_standards (room_type room) of Some s \<Rightarrow> s | None \<Rightarrow> (5, 30)) of
        (min_a, max_a) \<Rightarrow>
          if min_a \<le> Room_area room \<and> Room_area room \<le> max_a then Inr 1.0
          else if Room_area room < min_a then py_div (Room_area room) min_a
          else py_bind (py_div (Room_area room - max_a) max_a) (\<lambda>q. Inr (max 0 (1 - q))))"

definition room_efficiency_body :: "Room \<Rightarrow> real \<Rightarrow> py_error + real" where
  "room_efficiency_body room total_efficiency =
     py_bind (py_div (width (bounds room)) (height (bounds room))) (\<lambda>aspect_ratio.
       let shape_efficiency = evaluate_room_shape aspect_ratio;
           furniture_efficiency = Room_utilization_rate room
       in py_bind (evaluate_area_appropriateness room) (\<lambda>area_efficiency.
            let room_score = (shape_efficiency + furniture_efficiency + area_efficiency) / 3
            in Inr (total_efficiency + room_score)))"

definition evaluate_room_efficiency :: "Layout \<Rightarrow> py_error + real" where
  "evaluate_room_efficiency l =
     (if rooms l = [] then Inr 0.0
      else py_bind (py_for (rooms l) 0.0 room_efficiency_body) (\<lambda>total_efficiency.
             py_div total_efficiency (real (length (rooms l)))))"

definition evaluate_hallway_efficiency :: "Layout \<Rightarrow> py_error + real" where
  "evaluate_hallway_efficiency l =
     (if hallways l = [] then Inr 1.0
      else py_bind (py_div (Layout_hallway_area l) (Layout_total_area l)) (\<lambda>hallway_ratio.
             if hallway_ratio < 0.05 then Inr 1.0
             else if hallway_ratio < 0.1 then Inr 0.8
             else if hallway_ratio < 0.15 then Inr 0.6
             else Inr 0.3))"

definition SpaceEfficiencyEvaluator_evaluate :: "EvaluationConfig \<Rightarrow> Layout \<Rightarrow> py_error + real" where
  "SpaceEfficiencyEvaluator_evaluate cfg l =
     py_bind (evaluate_utilization_rate cfg (Layout_utilization_rate l)) (\<lambda>utilization_score.
     py_bind (evaluate_room_efficiency l) (\<lambda>room_efficiency_score.
     py_bind (evaluate_hallway_efficiency l) (\<lambda>hallway_efficiency_score.
       Inr (0.0 + utilization_score * 0.3 + room_efficiency_score * 0.4
              + hallway_efficiency_score * 0.3))))"

subsection \<open>LightingEvaluator\<close>

definition evaluate_window_coverage :: "EvaluationConfig \<Rightarrow> Layout \<Rightarrow> py_error + real" where
  "evaluate_window_coverage cfg l =
     (if rooms l = [] then Inr 0.0
      else
        let total_wall_area =
              sum_list (map (\<lambda>room. 2 * (width (bounds room) + height (bounds room)) * 2.8) (rooms l));
            total_window_area =
              sum_list (map (\<lambda>room. sum_list (map (\<lambda>w. width w * height w) (windows room))) (rooms l))
        in if total_wall_area = 0 then Inr 0.0
           else py_bind (py_div total_window_area total_wall_area) (\<lambda>window_ratio.
                  let ideal_ratio = window_area_ratio cfg
                  in py_bind (py_div \<bar>window_ratio - ideal_ratio\<bar> ideal_ratio) (\<lambda>q.
                       Inr (max 0 (1 - q)))))"

definition window_center :: "Rectangle \<Rightarrow> Point" where
  "window_center window =
     Point_init (rect_x window + width window / 2) (rect_y window + height window / 2)"

definition lighting_uniformity_body :: "EvaluationConfig \<Rightarrow> Room \<Rightarrow> real list \<Rightarrow> py_error + real list" where
  "lighting_uniformity_body cfg room room_scores =
     (case windows room of
        [] \<Rightarrow> Inr (room_scores @ [0.3])
      | w # ws \<Rightarrow>
          let center = Rectangle_center (bounds room);
              min_distance =
                foldl (\<lambda>m window. min m (Point_distance_to center (window_center window)))
                  (Point_distance_to center (window_center w)) ws;
              max_distance = max_depth_from_window cfg
          in py_bind (py_div min_distance max_distance) (\<lambda>q.
               let distance_score = max 0 (1 - q)
               in py_bind (py_div 30 (Room_area room)) (\<lambda>q30.
                    let area_factor = min 1 q30;
                        room_score = distance_score * area_factor
                    in Inr (room_scores @ [room_score]))))"

definition evaluate_lighting_uniformity :: "EvaluationConfig \<Rightarrow> Layout \<Rightarrow> py_error + real" where
  "evaluate_lighting_uniformity cfg l =
     py_bind (py_for (rooms l) [] (lighting_uniformity_body cfg)) (\<lambda>room_scores.
       if room_scores \<noteq> [] then py_div (sum_list room_scores) (real (length room_scores))
       else Inr 0.0)"

text \<open>The wall a window is attributed to, by the first test of the \<open>if\<close>/\<open>elif\<close> chain that holds.\<close>

definition window_wall :: "Room \<Rightarrow> Rectangle \<Rightarrow> Orientation option" where
  "window_wall room window =
     (if rect_x window \<le> rect_x (bounds room) + 0.1 then Some WEST
      else if rect_x window + width window \<ge> Rectangle_right (bounds room) - 0.1 then Some EAST
      else if rect_y window \<le> rect_y (bounds room) + 0.1 then Some NORTH
      else if rect_y window + height window \<ge> Rectangle_bottom (bounds room) - 0.1 then Some SOUTH
      else None)"

definition lighting_sources_room :: "Room \<Rightarrow> real" where
  "lighting_sources_room room =
     (if windows room \<noteq> [] then
        let orientations = remdups (List.map_filter (window_wall room) (windows room))
        in min 1 (real (length orientations) / 2)
      else 0)"

definition evaluate_lighting_sources :: "Layout \<Rightarrow> real" where
  "evaluate_lighting_sources l =
     (let important_rooms = [LIVING_ROOM, BEDROOM, KITCHEN];
          score = foldl (\<lambda>score rt.
                    foldl (\<lambda>score room. score + lighting_sources_room room) score
                      (Layout_get_rooms_by_type l rt))
                  0.0 important_rooms
      in score / (real (length important_rooms) * 2))"

definition LightingEvaluator_evaluate :: "EvaluationConfig \<Rightarrow> Layout \<Rightarrow> py_error + real" where
  "LightingEvaluator_evaluate cfg l =
     py_bind (evaluate_window_coverage cfg l) (\<lambda>window_coverage_score.
     py_bind (evaluate_lighting_uniformity cfg l) (\<lambda>uniformity_score.
       let source_config_score = evaluate_lighting_sources l
       in Inr (0.0 + window_coverage_score * 0.3 + uniformity_score * 0.4
                 + source_config_score * 0.3)))"

subsection \<open>VentilationEvaluator\<close>

definition evaluate_ventilation_paths :: "Layout \<Rightarrow> py_error + real" where
  "evaluate_ventilation_paths l =
     (if rooms l = [] then Inr 0.0
      else
        let room_scores =
              map (\<lambda>room.
                     let ventilation_openings = length (doors room) + length (windows room)
                     in if ventilation_openings \<ge> 2 then 1.0
                        else if ventilation_openings = 1 then 0.6
                        else (0.2 :: real))
                (rooms l)
        in py_div (sum_list room_scores) (real (length room_scores)))"

definition window_position :: "Room \<Rightarrow> Rectangle \<Rightarrow> string option" where
  "window_position room window =
     (if rect_x window \<le> rect_x (bounds room) + 0.1 then Some ''left''
      else if rect_x window + width window \<ge> Rectangle_right (bounds room) - 0.1 then Some ''right''
      else if rect_y window \<le> rect_y (bounds room) + 0.1 then Some ''top''
      else if rect_y window + height window \<ge> Rectangle_bottom (bounds room) - 0.1 then Some ''bottom''
      else None)"

definition has_cross_ventilation :: "Room \<Rightarrow> bool" where
  "has_cross_ventilation room \<longleftrightarrow>
     length (windows room) \<ge> 2 \<and>
     (let window_positions = List.map_filter (window_position room) (windows room)
      in (List.member window_positions ''left'' \<and> List.member window_positions ''right'') \<or>
         (List.member window_positions ''top'' \<and> List.member window_positions ''bottom''))"

definition evaluate_cross_ventilation :: "EvaluationConfig \<Rightarrow> Layout \<Rightarrow> py_error + real" where
  "evaluate_cross_ventilation cfg l =
     (let cross_ventilation_count = length (filter has_cross_ventilation (rooms l));
          total_rooms = length (rooms l)
      in if total_rooms = 0 then Inr 0.0
         else py_bind (py_div (real cross_ventilation_count) (real total_rooms)) (\<lambda>q.
                Inr (q * cross_ventilation_bonus cfg)))"

definition evaluate_air_circulation :: "Layout \<Rightarrow> py_error + real" where
  "evaluate_air_circulation l =
     (let connectivity_score =
            sum_list (map (\<lambda>room. min 1 (real (length (doors room)) / 2)) (rooms l))
      in if rooms l \<noteq> [] then py_div connectivity_score (real (length (rooms l))) else Inr 0.0)"

definition VentilationEvaluator_evaluate :: "EvaluationConfig \<Rightarrow> Layout \<Rightarrow> py_error + real" where
  "VentilationEvaluator_evaluate cfg l =
     py_bind (evaluate_ventilation_paths l) (\<lambda>path_score.
     py_bind (evaluate_cross_ventilation cfg l) (\<lambda>cross_ventilation_score.
     py_bind (evaluate_air_circulation l) (\<lambda>circulation_score.
       Inr (0.0 + path_score * 0.4 + cross_ventilation_score * 0.3 + circulation_score * 0.3))))"

subsection \<open>CirculationEvaluator\<close>

text \<open>The pairs visited by \<open>for i, a in enumerate(xs): for b in xs[i+1:]\<close>, in order.\<close>

fun later_pairs :: "'a list \<Rightarrow> ('a \<times> 'a) list" where
  "later_pairs [] = []"
| "later_pairs (a # as) = map (Pair a) as @ later_pairs as"

definition connection_body ::
  "EvaluationConfig \<Rightarrow> Layout \<Rightarrow> RoomType \<times> RoomType \<Rightarrow> real \<times> nat \<Rightarrow> py_error + real \<times> nat" where
  "connection_body cfg l pair acc =
     (case pair of (room_type1, room_type2) \<Rightarrow>
      case acc of (connection_score, total_connections) \<Rightarrow>
      case (room_dict l room_type1, room_dict l room_type2) of
        (Some room1, Some room2) \<Rightarrow>
          let distance = Point_distance_to (Rectangle_center (bounds room1))
                           (Rectangle_center (bounds room2));
              max_distance = max_circulation_distance cfg
          in py_bind (py_div distance max_distance) (\<lambda>q.
               let distance_score = max 0 (1 - q)
               in Inr (connection_score + distance_score, total_connections + 1))
      | _ \<Rightarrow> Inr acc)"

definition evaluate_connection_efficiency :: "EvaluationConfig \<Rightarrow> Layout \<Rightarrow> py_error + real" where
  "evaluate_connection_efficiency cfg l =
     (let important_rooms = [LIVING_ROOM, KITCHEN, BEDROOM]
      in py_bind (py_for (later_pairs important_rooms) (0.0, 0) (connection_body cfg l))
           (\<lambda>(connection_score, total_connections).
              if total_connections > 0 then py_div connection_score (real total_connections)
              else Inr 0.0))"

definition evaluate_path_lengths :: "Layout \<Rightarrow> py_error + real" where
  "evaluate_path_lengths l =
     (if hallways l = [] then Inr 1.0
      else
        let total_hallway_length = sum_list (map (\<lambda>h. max (width h) (height h)) (hallways l));
            ideal_length = Layout_total_area l * 0.1;
            deviation = \<bar>total_hallway_length - ideal_length\<bar>
        in py_bind (py_div deviation ideal_length) (\<lambda>q. Inr (max 0 (1 - q))))"

definition evaluate_circulation_intersections :: "Layout \<Rightarrow> py_error + real" where
  "evaluate_circulation_intersections l =
     (let intersections =
            length (filter (\<lambda>(hallway1, hallway2). Rectangle_intersects hallway1 hallway2)
              (later_pairs (hallways l)));
          max_intersections = length (hallways l) div 2
      in py_bind (py_div (real intersections) (real (max 1 max_intersections))) (\<lambda>q.
           Inr (max 0 (1 - q))))"

definition CirculationEvaluator_evaluate :: "EvaluationConfig \<Rightarrow> Layout \<Rightarrow> py_error + real" where
  "CirculationEvaluator_evaluate cfg l =
     py_bind (evaluate_connection_efficiency cfg l) (\<lambda>connection_score.
     py_bind (evaluate_path_lengths l) (\<lambda>path_length_score.
     py_bind (evaluate_circulation_intersections l) (\<lambda>intersection_score.
       Inr (0.0 + connection_score * 0.3 + path_length_score * 0.4 + intersection_score * 0.3))))"

subsection \<open>ComfortEvaluator\<close>

definition evaluate_noise_isolation :: "Layout \<Rightarrow> py_error + real" where
  "evaluate_noise_isolation l =
     (let noise_sources = [KITCHEN, BATHROOM];
          quiet_zones = [BEDROOM, STUDY];
          isolation_scores =
            concat (map (\<lambda>source_type.
              case room_dict l source_type of
                None \<Rightarrow> []
              | Some source_room \<Rightarrow>
                  concat (map (\<lambda>quiet_type.
                    case room_dict l quiet_type of
                      None \<Rightarrow> []
                    | Some quiet_room \<Rightarrow>
                        let distance = Point_distance_to (Rectangle_center (bounds source_room))
                                         (Rectangle_center (bounds quiet_room))
                        in [min 1 (distance / 5.0)]) quiet_zones)) noise_sources)
      in if isolation_scores \<noteq> []
         then py_div (sum_list isolation_scores) (real (length isolation_scores))
         else Inr 1.0)"

definition door_on_wall :: "Room \<Rightarrow> Rectangle \<Rightarrow> bool" where
  "door_on_wall room door \<longleftrightarrow>
     rect_x door \<le> rect_x (bounds room) + 0.5 \<or>
     rect_x door + width door \<ge> Rectangle_right (bounds room) - 0.5 \<or>
     rect_y door \<le> rect_y (bounds room) + 0.5 \<or>
     rect_y door + height door \<ge> Rectangle_bottom (bounds room) - 0.5"

definition evaluate_privacy :: "Layout \<Rightarrow> py_error + real" where
  "evaluate_privacy l =
     (let private_rooms = [BEDROOM, BATHROOM];
          privacy_scores =
            concat (map (\<lambda>rt.
              case room_dict l rt of
                None \<Rightarrow> []
              | Some room \<Rightarrow>
                  let public_access = length (filter (door_on_wall room) (doors room))
                  in [max 0 (1 - real public_access / 2)]) private_rooms)
      in if privacy_scores \<noteq> []
         then py_div (sum_list privacy_scores) (real (length privacy_scores))
         else Inr 1.0)"

definition social_spaces_body :: "Layout \<Rightarrow> RoomType \<Rightarrow> real \<Rightarrow> py_error + real" where
  "social_spaces_body l rt social_score =
     (case room_dict l rt of
        None \<Rightarrow> Inr social_score
      | Some room \<Rightarrow>
          let ideal_area = (if rt = LIVING_ROOM then 20 else 15);
              area_score = min 1 (Room_area room / ideal_area)
          in py_bind (py_div (width (bounds room)) (height (bounds room))) (\<lambda>aspect_ratio.
               let shape_score = (if 0.8 \<le> aspect_ratio \<and> aspect_ratio \<le> 1.25 then 1.0 else 0.7)
               in Inr (social_score + (area_score + shape_score) / 2)))"

definition evaluate_social_spaces :: "EvaluationConfig \<Rightarrow> Layout \<Rightarrow> py_error + real" where
  "evaluate_social_spaces cfg l =
     (let social_rooms = [LIVING_ROOM, DINING_ROOM]
      in py_bind (py_for social_rooms 0.0 (social_spaces_body l)) (\<lambda>social_score.
           Inr (social_score / real (length social_rooms) * social_area_bonus cfg)))"

definition zone_score :: "Layout \<Rightarrow> RoomType list \<Rightarrow> py_error + real" where
  "zone_score l zone =
     (let zone_rooms = filter (\<lambda>room. List.member zone (room_type room)) (rooms l)
      in if length zone_rooms < 2 then Inr 1.0
         else
           let centers = map (\<lambda>room. Rectangle_center (bounds room)) zone_rooms;
               n = real (length centers)
           in py_bind (py_div (sum_list (map pt_x centers)) n) (\<lambda>ax.
              py_bind (py_div (sum_list (map pt_y centers)) n) (\<lambda>ay.
                let avg_center = Point_init ax ay
                in py_bind (py_div (sum_list (map (\<lambda>c. Point_distance_to c avg_center) centers)) n)
                     (\<lambda>avg_distance. Inr (max 0 (1 - avg_distance / 10.0))))))"

definition evaluate_functional_zoning :: "Layout \<Rightarrow> py_error + real" where
  "evaluate_functional_zoning l =
     (let living_zone = [LIVING_ROOM, DINING_ROOM];
          private_zone = [BEDROOM, STUDY];
          service_zone = [KITCHEN, BATHROOM];
          zones = [living_zone, private_zone, service_zone]
      in py_bind (py_for zones []
                    (\<lambda>zone zone_scores. py_bind (zone_score l zone) (\<lambda>s. Inr (zone_scores @ [s]))))
           (\<lambda>zone_scores. py_div (sum_list zone_scores) (real (length zone_scores))))"

definition ComfortEvaluator_evaluate :: "EvaluationConfig \<Rightarrow> Layout \<Rightarrow> py_error + real" where
  "ComfortEvaluator_evaluate cfg l =
     py_bind (evaluate_noise_isolation l) (\<lambda>noise_score.
     py_bind (evaluate_privacy l) (\<lambda>privacy_score.
     py_bind (evaluate_social_spaces cfg l) (\<lambda>social_score.
     py_bind (evaluate_functional_zoning l) (\<lambda>functional_score.
       Inr (0.0 + noise_score * 0.3 + privacy_score * 0.3 + social_score * 0.2
              + functional_score * 0.2)))))"

subsection \<open>MultiDimensionalEvaluator\<close>

datatype EvaluatorClass =
  SpaceEfficiencyEvaluator | LightingEvaluator | VentilationEvaluator
  | CirculationEvaluator | ComfortEvaluator

record Evaluator =
  ev_class :: EvaluatorClass
  ev_config :: EvaluationConfig
  weight :: real

definition Evaluator_init :: "EvaluatorClass \<Rightarrow> EvaluationConfig \<Rightarrow> real \<Rightarrow> Evaluator" where
  "Evaluator_init c cfg w = \<lparr>ev_class = c, ev_config = cfg, weight = w\<rparr>"

text \<open>The method \<open>evaluate\<close> of an evaluator object, dispatched on its class.\<close>

definition Evaluator_evaluate :: "Evaluator \<Rightarrow> Layout \<Rightarrow> py_error + real" where
  "Evaluator_evaluate evaluator l =
     (case ev_class evaluator of
        SpaceEfficiencyEvaluator \<Rightarrow> SpaceEfficiencyEvaluator_evaluate (ev_config evaluator) l
      | LightingEvaluator \<Rightarrow> LightingEvaluator_evaluate (ev_config evaluator) l
      | VentilationEvaluator \<Rightarrow> VentilationEvaluator_evaluate (ev_config evaluator) l
      | CirculationEvaluator \<Rightarrow> CirculationEvaluator_evaluate (ev_config evaluator) l
      | ComfortEvaluator \<Rightarrow> ComfortEvaluator_evaluate (ev_config evaluator) l)"

fun class_name :: "EvaluatorClass \<Rightarrow> string" where
  "class_name SpaceEfficiencyEvaluator = ''SpaceEfficiencyEvaluator''"
| "class_name LightingEvaluator = ''LightingEvaluator''"
| "class_name VentilationEvaluator = ''VentilationEvaluator''"
| "class_name CirculationEvaluator = ''CirculationEvaluator''"
| "class_name ComfortEvaluator = ''ComfortEvaluator''"

text \<open>\<open>s.replace(pat, '')\<close> for a non-empty \<open>pat\<close>, and \<open>s.lower()\<close> on ASCII letters.\<close>

function str_remove :: "string \<Rightarrow> string \<Rightarrow> string" where
  "str_remove pat [] = []"
| "str_remove pat (c # cs) =
     (if pat \<noteq> [] \<and> take (length pat) (c # cs) = pat
      then str_remove pat (drop (length pat) (c # cs))
      else c # str_remove pat cs)"
  by pat_completeness auto
termination
  by (relation "measure (\<lambda>(pat, s). length s)") (auto simp: neq_Nil_conv)

definition char_lower :: "char \<Rightarrow> char" where
  "char_lower c =
     (if 65 \<le> (of_char c :: nat) \<and> (of_char c :: nat) \<le> 90
      then char_of ((of_char c :: nat) + 32) else c)"

definition str_lower :: "string \<Rightarrow> string" where
  "str_lower s = map char_lower s"

definition evaluator_name :: "Evaluator \<Rightarrow> string" where
  "evaluator_name evaluator = str_lower (str_remove ''Evaluator'' (class_name (ev_class evaluator)))"

record MultiDimensionalEvaluator =
  mde_config :: EvaluationConfig
  evaluators :: "Evaluator list"

definition MultiDimensionalEvaluator_init :: "EvaluationConfig \<Rightarrow> MultiDimensionalEvaluator" where
  "MultiDimensionalEvaluator_init cfg =
     \<lparr>mde_config = cfg,
      evaluators =
        [Evaluator_init SpaceEfficiencyEvaluator cfg (space_efficiency_weight cfg),
         Evaluator_init LightingEvaluator cfg (lighting_weight cfg),
         Evaluator_init VentilationEvaluator cfg (ventilation_weight cfg),
         Evaluator_init CirculationEvaluator cfg (circulation_weight cfg),
         Evaluator_init ComfortEvaluator cfg (comfort_weight cfg)]\<rparr>"

definition evaluate_body :: "Layout \<Rightarrow> Evaluator \<Rightarrow> real \<Rightarrow> py_error + real" where
  "evaluate_body l evaluator total_score =
     py_bind (Evaluator_evaluate evaluator l) (\<lambda>score.
       let weighted_score = score * weight evaluator
       in Inr (total_score + weighted_score))"

definition evaluate :: "MultiDimensionalEvaluator \<Rightarrow> Layout \<Rightarrow> py_error + real" where
  "evaluate m l = py_for (evaluators m) 0.0 (evaluate_body l)"

record ResultEntry =
  res_score :: real
  res_weight :: real
  res_weighted_score :: real

definition evaluate_detailed_body ::
  "Layout \<Rightarrow> Evaluator \<Rightarrow> (string \<rightharpoonup> ResultEntry) \<times> real \<Rightarrow> py_error + (string \<rightharpoonup> ResultEntry) \<times> real" where
  "evaluate_detailed_body l evaluator acc =
     (case acc of (results, total_score) \<Rightarrow>
        py_bind (Evaluator_evaluate evaluator l) (\<lambda>score.
          let weighted_score = score * weight evaluator;
              name = evaluator_name evaluator
          in Inr (results(name \<mapsto>
                    \<lparr>res_score = score, res_weight = weight evaluator,
                     res_weighted_score = weighted_score\<rparr>),
                  total_score + weighted_score)))"

definition evaluate_detailed ::
  "MultiDimensionalEvaluator \<Rightarrow> Layout \<Rightarrow> py_error + (string \<rightharpoonup> ResultEntry)" where
  "evaluate_detailed m l =
     py_bind (py_for (evaluators m) (Map.empty, 0.0) (evaluate_detailed_body l))
       (\<lambda>(results, total_score).
          Inr (results(''total'' \<mapsto>
                 \<lparr>res_score = total_score,
                  res_weight = sum_list (map weight (evaluators m)),
                  res_weighted_score = total_score\<rparr>)))"

section \<open>The random source and object addresses\<close>

text \<open>
  The module \<open>random\<close> and the builtin \<open>id\<close> belong to Python, not to the repository.
  They are modelled by their documented behaviour over an explicit state: \<open>draws\<close> is the
  sequence of 53-bit integers the generator will produce and \<open>draw_pos\<close> the number already
  consumed; \<open>addrs\<close> is the sequence of addresses that \<open>id\<close> will report for the rooms
  created from now on and \<open>alloc_pos\<close> the number already created. Every sequence is a
  possible random state, and the program has no influence on the addresses.
\<close>

record World =
  draws :: "nat \<Rightarrow> nat"
  draw_pos :: nat
  addrs :: "nat \<Rightarrow> nat"
  alloc_pos :: nat

definition next_draw :: "World \<Rightarrow> nat \<times> World" where
  "next_draw w = (draws w (draw_pos w), w\<lparr>draw_pos := draw_pos w + 1\<rparr>)"

text \<open>\<open>random.random()\<close>: a float \<open>k / 2^53\<close> in [0, 1).\<close>

definition random_random :: "World \<Rightarrow> real \<times> World" where
  "random_random w =
     (case next_draw w of (d, w') \<Rightarrow> (real (d mod 2 ^ 53) / 2 ^ 53, w'))"

text \<open>\<open>random.uniform(a, b)\<close> is \<open>a + (b - a) * random()\<close>.\<close>

definition random_uniform :: "real \<Rightarrow> real \<Rightarrow> World \<Rightarrow> real \<times> World" where
  "random_uniform a b w = (case random_random w of (u, w') \<Rightarrow> (a + (b - a) * u, w'))"

text \<open>The generator's \<open>_randbelow(n)\<close>, for \<open>n > 0\<close>: an integer below \<open>n\<close>.\<close>

definition randbelow :: "nat \<Rightarrow> World \<Rightarrow> nat \<times> World" where
  "randbelow n w = (case next_draw w of (d, w') \<Rightarrow> (d mod n, w'))"

text \<open>\<open>random.choice(seq)\<close> raises IndexError on an empty sequence.\<close>

definition random_choice :: "'a list \<Rightarrow> World \<Rightarrow> py_error + 'a \<times> World" where
  "random_choice seq w =
     (if seq = [] then Inl IndexError
      else case randbelow (length seq) w of (j, w') \<Rightarrow> Inr (seq ! j, w'))"

text \<open>
  \<open>random.shuffle(x)\<close>:
  \<^verbatim>\<open>for i in reversed(range(1, len(x))): j = randbelow(i + 1); x[i], x[j] = x[j], x[i]\<close>
\<close>

definition random_shuffle :: "'a list \<Rightarrow> World \<Rightarrow> 'a list \<times> World" where
  "random_shuffle x w =
     foldl (\<lambda>(x, w) i. case randbelow (i + 1) w of (j, w') \<Rightarrow> (x[i := x ! j, j := x ! i], w'))
       (x, w) (rev [1..<length x])"

text \<open>
  \<open>random.sample(population, k)\<close> raises ValueError unless \<open>0 \<le> k \<le> len(population)\<close> and
  returns the elements at \<open>k\<close> positions chosen without replacement:
  \<^verbatim>\<open>pool = list(population)
  for i in range(k): j = randbelow(n - i); result[i] = pool[j]; pool[j] = pool[n - i - 1]\<close>
  \<open>sample_positions\<close> runs this on the positions; its first argument is the live part
  \<open>pool[:n - i]\<close> of the pool.
\<close>

fun sample_positions :: "nat list \<Rightarrow> nat \<Rightarrow> nat list \<Rightarrow> World \<Rightarrow> nat list \<times> World" where
  "sample_positions pool 0 result w = (result, w)"
| "sample_positions pool (Suc k) result w =
     (case randbelow (length pool) w of (j, w') \<Rightarrow>
        sample_positions (butlast (pool[j := last pool])) k (result @ [pool ! j]) w')"

definition random_sample :: "'a list \<Rightarrow> nat \<Rightarrow> World \<Rightarrow> py_error + 'a list \<times> World" where
  "random_sample population k w =
     (if k > length population then Inl ValueError
      else case sample_positions [0..<length population] k [] w of
             (positions, w') \<Rightarrow> Inr (map (\<lambda>i. population ! i) positions, w'))"

text \<open>\<open>Room(...)\<close>: the constructor call, which takes the next address for \<open>id(self)\<close>.\<close>

definition Room_new ::
  "RoomType \<Rightarrow> Rectangle \<Rightarrow> real \<Rightarrow> Orientation option \<Rightarrow> World \<Rightarrow> Room \<times> World" where
  "Room_new t b m ori w =
     (Room_init (addrs w (alloc_pos w)) t b m ori, w\<lparr>alloc_pos := alloc_pos w + 1\<rparr>)"

text \<open>\<open>Layout.copy\<close>: new rooms from type, bounds, \<open>min_area\<close> and orientation only.\<close>

definition Layout_copy :: "Layout \<Rightarrow> World \<Rightarrow> Layout \<times> World" where
  "Layout_copy l w =
     (case foldl (\<lambda>(new_layout, w) room.
              case Room_new (room_type room)
                     (Rectangle_init (rect_x (bounds room)) (rect_y (bounds room))
                        (width (bounds room)) (height (bounds room)))
                     (min_area room) (orientation room) w of
                (new_room, w') \<Rightarrow> (Layout_add_room new_layout new_room, w'))
            (Layout_init (Rectangle_init (rect_x (layout_bounds l)) (rect_y (layout_bounds l))
               (width (layout_bounds l)) (height (layout_bounds l))), w)
            (rooms l) of
        (new_layout, w') \<Rightarrow>
          (new_layout\<lparr>hallways := map (\<lambda>h. Rectangle_init (rect_x h) (rect_y h) (width h) (height h))
                                    (hallways l),
                      metadata := metadata l\<rparr>, w'))"

section \<open>Templates, constraints and configuration\<close>

record RoomTemplate =
  tmpl_room_type :: RoomType
  tmpl_min_area :: real
  tmpl_max_area :: real
  aspect_ratio_min :: real
  aspect_ratio_max :: real

definition RoomTemplate_init :: "RoomType \<Rightarrow> real \<Rightarrow> real \<Rightarrow> real \<Rightarrow> real \<Rightarrow> RoomTemplate" where
  "RoomTemplate_init t a b c d =
     \<lparr>tmpl_room_type = t, tmpl_min_area = a, tmpl_max_area = b,
      aspect_ratio_min = c, aspect_ratio_max = d\<rparr>"

text \<open>
  \<open>generate_random_size\<close>. The source computes \<open>(area * aspect_ratio) ** 0.5\<close>, the square
  root for the non-negative products that templates with positive bounds give.
\<close>

definition generate_random_size :: "RoomTemplate \<Rightarrow> World \<Rightarrow> py_error + (real \<times> real) \<times> World" where
  "generate_random_size t w =
     (case random_uniform (tmpl_min_area t) (tmpl_max_area t) w of (area, w1) \<Rightarrow>
      case random_uniform (aspect_ratio_min t) (aspect_ratio_max t) w1 of (aspect_ratio, w2) \<Rightarrow>
        let width = sqrt (area * aspect_ratio)
        in py_bind (py_div area width) (\<lambda>height. Inr ((width, height), w2)))"

record LayoutConstraints =
  min_room_distance :: real
  max_total_rooms :: int
  min_hallway_width :: real
  max_corridor_length :: real
  adjacency_rules :: "(RoomType \<times> RoomType list) list"
  separation_rules :: "((RoomType \<times> RoomType) \<times> real) list"

definition LayoutConstraints_init :: LayoutConstraints where
  "LayoutConstraints_init =
     \<lparr>min_room_distance = 1.0, max_total_rooms = 15, min_hallway_width = 1.2,
      max_corridor_length = 10.0,
      adjacency_rules =
        [(KITCHEN, [DINING_ROOM, LIVING_ROOM]), (BEDROOM, [BATHROOM]),
         (LIVING_ROOM, [DINING_ROOM, HALLWAY]), (BATHROOM, [BEDROOM, HALLWAY])],
      separation_rules =
        [((BEDROOM, KITCHEN), 2.0), ((BATHROOM, KITCHEN), 1.5), ((BEDROOM, LIVING_ROOM), 1.0)]\<rparr>"

record MonteCarloConfig =
  max_iterations :: int
  population_size :: int
  mutation_rate :: real
  crossover_rate :: real
  temperature_start :: real
  temperature_end :: real
  cooling_rate :: real
  elite_ratio :: real
  convergence_threshold :: real
  max_no_improvement :: int
  min_room_area :: real
  max_room_area :: real
  min_aspect_ratio :: real
  max_aspect_ratio :: real
  wall_thickness :: real

definition MonteCarloConfig_default :: MonteCarloConfig where
  "MonteCarloConfig_default =
     \<lparr>max_iterations = 10000, population_size = 50, mutation_rate = 0.3, crossover_rate = 0.7,
      temperature_start = 100.0, temperature_end = 0.01, cooling_rate = 0.995,
      elite_ratio = 0.2, convergence_threshold = 1 / 10 ^ 6, max_no_improvement = 100,
      min_room_area = 5.0, max_room_area = 50.0, min_aspect_ratio = 0.5, max_aspect_ratio = 2.0,
      wall_thickness = 0.2\<rparr>"

text \<open>\<open>int(x)\<close> truncates towards zero; \<open>range(n)\<close> is empty for \<open>n \<le> 0\<close>.\<close>

definition py_int :: "real \<Rightarrow> int" where
  "py_int x = (if x \<ge> 0 then \<lfloor>x\<rfloor> else \<lceil>x\<rceil>)"

definition py_range :: "int \<Rightarrow> nat list" where
  "py_range n = [0..<nat n]"

section \<open>RandomLayoutGenerator (monte\_carlo\_engine.py)\<close>

record RandomLayoutGenerator =
  gen_config :: MonteCarloConfig
  gen_constraints :: LayoutConstraints

definition RandomLayoutGenerator_init ::
  "MonteCarloConfig \<Rightarrow> LayoutConstraints option \<Rightarrow> RandomLayoutGenerator" where
  "RandomLayoutGenerator_init config constraints =
     \<lparr>gen_config = config,
      gen_constraints = (case constraints of Some c \<Rightarrow> c | None \<Rightarrow> LayoutConstraints_init)\<rparr>"

text \<open>The dictionary built by \<open>_create_room_templates\<close>, read with \<open>.get\<close>.\<close>

fun room_templates :: "RoomType \<Rightarrow> RoomTemplate option" where
  "room_templates LIVING_ROOM = Some (RoomTemplate_init LIVING_ROOM 15 40 0.8 1.5)"
| "room_templates BEDROOM = Some (RoomTemplate_init BEDROOM 8 25 0.7 1.4)"
| "room_templates KITCHEN = Some (RoomTemplate_init KITCHEN 6 20 0.6 1.8)"
| "room_templates BATHROOM = Some (RoomTemplate_init BATHROOM 3 12 0.5 2.0)"
| "room_templates DINING_ROOM = Some (RoomTemplate_init DINING_ROOM 10 25 0.7 1.6)"
| "room_templates STUDY = Some (RoomTemplate_init STUDY 6 18 0.6 1.5)"
| "room_templates BALCONY = Some (RoomTemplate_init BALCONY 4 15 0.3 3.0)"
| "room_templates STORAGE = Some (RoomTemplate_init STORAGE 2 8 0.4 2.5)"
| "room_templates HALLWAY = Some (RoomTemplate_init HALLWAY 3 15 0.2 5.0)"

definition can_place_room_in_space :: "RandomLayoutGenerator \<Rightarrow> Rectangle \<Rightarrow> real \<Rightarrow> real \<Rightarrow> bool" where
  "can_place_room_in_space gen space w h \<longleftrightarrow>
     width space \<ge> w + 2 * wall_thickness (gen_config gen) \<and>
     height space \<ge> h + 2 * wall_thickness (gen_config gen)"

definition choose_position_in_space ::
  "RandomLayoutGenerator \<Rightarrow> Rectangle \<Rightarrow> real \<Rightarrow> real \<Rightarrow> World \<Rightarrow> (real \<times> real) \<times> World" where
  "choose_position_in_space gen space w h world =
     (let margin = wall_thickness (gen_config gen)
      in case random_random world of (u1, world1) \<Rightarrow>
         case random_random world1 of (u2, world2) \<Rightarrow>
           ((rect_x space + margin + u1 * (width space - w - 2 * margin),
             rect_y space + margin + u2 * (height space - h - 2 * margin)), world2))"

definition split_space :: "RandomLayoutGenerator \<Rightarrow> Rectangle \<Rightarrow> Rectangle \<Rightarrow> Rectangle list" where
  "split_space gen original_space placed_room =
     (let margin = wall_thickness (gen_config gen)
      in (if Rectangle_top placed_room - Rectangle_top original_space > margin * 2
          then [Rectangle_init (rect_x original_space) (rect_y original_space)
                  (width original_space)
                  (Rectangle_top placed_room - Rectangle_top original_space - margin)]
          else []) @
         (if Rectangle_bottom original_space - Rectangle_bottom placed_room > margin * 2
          then [Rectangle_init (rect_x original_space) (Rectangle_bottom placed_room + margin)
                  (width original_space)
                  (Rectangle_bottom original_space - Rectangle_bottom placed_room - margin)]
          else []) @
         (if Rectangle_left placed_room - Rectangle_left original_space > margin * 2
          then [Rectangle_init (rect_x original_space) (Rectangle_top placed_room)
                  (Rectangle_left placed_room - Rectangle_left original_space - margin)
                  (Rectangle_bottom placed_room - Rectangle_top placed_room)]
          else []) @
         (if Rectangle_right original_space - Rectangle_right placed_room > margin * 2
          then [Rectangle_init (Rectangle_right placed_room + margin) (Rectangle_top placed_room)
                  (Rectangle_right original_space - Rectangle_right placed_room - margin)
                  (Rectangle_bottom placed_room - Rectangle_top placed_room)]
          else []))"

text \<open>
  \<open>_compact_place_room\<close>: the grid positions in the order of the two nested loops; the room
  goes to the first one that fits the footprint and meets no room placed so far, and is
  dropped when there is none.
\<close>

definition compact_position_ok :: "RandomLayoutGenerator \<Rightarrow> Layout \<Rightarrow> real \<Rightarrow> real \<Rightarrow> nat \<times> nat \<Rightarrow> bool" where
  "compact_position_ok gen layout w h cell \<longleftrightarrow>
     (case cell of (row, col) \<Rightarrow>
        let margin = wall_thickness (gen_config gen);
            grid_size = 1.0;
            x = rect_x (layout_bounds layout) + real col * grid_size + margin;
            y = rect_y (layout_bounds layout) + real row * grid_size + margin
        in x + w \<le> Rectangle_right (layout_bounds layout) - margin \<and>
           y + h \<le> Rectangle_bottom (layout_bounds layout) - margin \<and>
           \<not> list_ex (\<lambda>existing_room. Rectangle_intersects (Rectangle_init x y w h) (bounds existing_room))
                (rooms layout))"

definition compact_place_room ::
  "RandomLayoutGenerator \<Rightarrow> Layout \<Rightarrow> RoomType \<Rightarrow> real \<Rightarrow> real \<Rightarrow> World \<Rightarrow> Layout \<times> World" where
  "compact_place_room gen layout rt w h world =
     (let margin = wall_thickness (gen_config gen);
          grid_size = 1.0;
          cols = py_int (width (layout_bounds layout) / grid_size);
          rows = py_int (height (layout_bounds layout) / grid_size)
      in case find (compact_position_ok gen layout w h) (List.product (py_range rows) (py_range cols)) of
           None \<Rightarrow> (layout, world)
         | Some (row, col) \<Rightarrow>
             let x = rect_x (layout_bounds layout) + real col * grid_size + margin;
                 y = rect_y (layout_bounds layout) + real row * grid_size + margin
             in case Room_new rt (Rectangle_init x y w h) 0 None world of
                  (room, world') \<Rightarrow> (Layout_add_room layout room, world'))"

text \<open>
  The scan \<open>for i, space in enumerate(available_spaces)\<close> up to its \<open>break\<close>: the spaces
  before the first one that can take the room, that space, and the spaces after it.
\<close>

fun first_fit ::
  "RandomLayoutGenerator \<Rightarrow> Rectangle list \<Rightarrow> real \<Rightarrow> real \<Rightarrow>
     (Rectangle list \<times> Rectangle \<times> Rectangle list) option" where
  "first_fit gen [] w h = None"
| "first_fit gen (space # rest) w h =
     (if can_place_room_in_space gen space w h then Some ([], space, rest)
      else case first_fit gen rest w h of
             None \<Rightarrow> None
           | Some (before, s, after) \<Rightarrow> Some (space # before, s, after))"

definition place_room_body ::
  "RandomLayoutGenerator \<Rightarrow> Layout \<times> Rectangle list \<times> World \<Rightarrow> RoomType \<times> real \<times> real \<Rightarrow>
     Layout \<times> Rectangle list \<times> World" where
  "place_room_body gen st item =
     (case st of (layout, available_spaces, world) \<Rightarrow>
      case item of (rt, w, h) \<Rightarrow>
      case first_fit gen available_spaces w h of
        Some (before, space, after) \<Rightarrow>
          (case choose_position_in_space gen space w h world of ((x, y), world1) \<Rightarrow>
             let room_bounds = Rectangle_init x y w h
             in case Room_new rt room_bounds 0 None world1 of (room, world2) \<Rightarrow>
                  (Layout_add_room layout room,
                   before @ after @ split_space gen space room_bounds, world2))
      | None \<Rightarrow>
          (case compact_place_room gen layout rt w h world of
             (layout', world') \<Rightarrow> (layout', available_spaces, world')))"

definition place_rooms_rectangular_split ::
  "RandomLayoutGenerator \<Rightarrow> Layout \<Rightarrow> (RoomType \<times> real \<times> real) list \<Rightarrow> World \<Rightarrow> Layout \<times> World" where
  "place_rooms_rectangular_split gen layout rooms_to_place world =
     (case foldl (place_room_body gen) (layout, [layout_bounds layout], world) rooms_to_place of
        (layout', available_spaces, world') \<Rightarrow> (layout', world'))"

text \<open>
  \<open>_add_hallways\<close>. \<open>room != main_room\<close> compares objects: it is false exactly for the
  first living room of \<open>layout.rooms\<close>, for which no random number is drawn.
\<close>

fun without_first :: "('a \<Rightarrow> bool) \<Rightarrow> 'a list \<Rightarrow> 'a list" where
  "without_first P [] = []"
| "without_first P (a # as) = (if P a then as else a # without_first P as)"

definition hallway_between :: "real \<Rightarrow> Point \<Rightarrow> Point \<Rightarrow> Rectangle" where
  "hallway_between hallway_width start_point end_point =
     (if \<bar>pt_x start_point - pt_x end_point\<bar> > \<bar>pt_y start_point - pt_y end_point\<bar> then
        let y = (pt_y start_point + pt_y end_point) / 2;
            x1 = min (pt_x start_point) (pt_x end_point);
            x2 = max (pt_x start_point) (pt_x end_point)
        in Rectangle_init (x1 - hallway_width / 2) (y - hallway_width / 2)
             (x2 - x1 + hallway_width) hallway_width
      else
        let x = (pt_x start_point + pt_x end_point) / 2;
            y1 = min (pt_y start_point) (pt_y end_point);
            y2 = max (pt_y start_point) (pt_y end_point)
        in Rectangle_init (x - hallway_width / 2) (y1 - hallway_width / 2)
             hallway_width (y2 - y1 + hallway_width))"

definition hallway_step :: "real \<Rightarrow> Room \<Rightarrow> Layout \<times> World \<Rightarrow> Room \<Rightarrow> Layout \<times> World" where
  "hallway_step hallway_width main_room st room =
     (case st of (layout, world) \<Rightarrow>
        case random_random world of (u, world') \<Rightarrow>
          if u < 0.3
          then (Layout_add_hallway layout
                  (hallway_between hallway_width
                     (Rectangle_center (bounds main_room))
                     (Rectangle_center (bounds room))), world')
          else (layout, world'))"

definition add_hallways :: "RandomLayoutGenerator \<Rightarrow> Layout \<Rightarrow> World \<Rightarrow> Layout \<times> World" where
  "add_hallways gen layout world =
     (if length (rooms layout) < 2 then (layout, world)
      else
        let hallway_width = min_hallway_width (gen_constraints gen)
        in case Layout_get_rooms_by_type layout LIVING_ROOM of
             [] \<Rightarrow> (layout, world)
           | main_room # _ \<Rightarrow>
               foldl (hallway_step hallway_width main_room) (layout, world)
                 (without_first (\<lambda>room. room_type room = LIVING_ROOM) (rooms layout)))"

definition sample_size_body ::
  "RoomType \<Rightarrow> nat \<Rightarrow> (RoomType \<times> real \<times> real) list \<times> World \<Rightarrow>
     py_error + (RoomType \<times> real \<times> real) list \<times> World" where
  "sample_size_body rt i st =
     (case st of (rooms_to_place, world) \<Rightarrow>
        case room_templates rt of
          None \<Rightarrow> Inr (rooms_to_place, world)
        | Some template \<Rightarrow>
            py_bind (generate_random_size template world) (\<lambda>((w, h), world').
              Inr (rooms_to_place @ [(rt, w, h)], world')))"

definition sample_room_sizes ::
  "(RoomType \<times> int) list \<Rightarrow> World \<Rightarrow> py_error + (RoomType \<times> real \<times> real) list \<times> World" where
  "sample_room_sizes room_requirements world =
     py_for room_requirements ([], world)
       (\<lambda>(rt, count) st. py_for (py_range count) st (sample_size_body rt))"

text \<open>
  \<open>generate_random_layout\<close>. The requirements dictionary is the list of its items in
  iteration order.
\<close>

definition generate_random_layout ::
  "RandomLayoutGenerator \<Rightarrow> Rectangle \<Rightarrow> (RoomType \<times> int) list \<Rightarrow> World \<Rightarrow> py_error + Layout \<times> World" where
  "generate_random_layout gen bnds room_requirements world =
     py_bind (sample_room_sizes room_requirements world) (\<lambda>(rooms_to_place, world1).
       case random_shuffle rooms_to_place world1 of (shuffled, world2) \<Rightarrow>
       case place_rooms_rectangular_split gen (Layout_init bnds) shuffled world2 of (layout, world3) \<Rightarrow>
         Inr (add_hallways gen layout world3))"

section \<open>Inputs of the generator claims\<close>

text \<open>
  A random state whose first two draws give a kitchen of 3 by 2 (area 6, aspect ratio 1.5)
  and whose other draws are 0, over any sequence of addresses.
\<close>

definition kitchen_world :: "(nat \<Rightarrow> nat) \<Rightarrow> World" where
  "kitchen_world a =
     \<lparr>draws = (\<lambda>n. if n = 1 then 3 * 2 ^ 51 else 0), draw_pos = 0, addrs = a, alloc_pos = 0\<rparr>"

definition default_generator :: RandomLayoutGenerator where
  "default_generator = RandomLayoutGenerator_init MonteCarloConfig_default None"

section \<open>Runs from the same random state\<close>

text \<open>
  Two states of the world with the same random state may differ in the addresses that
  \<open>id\<close> will report. Two layouts are the same up to ids when they are equal once the
  \<open>id\<close> of every room is overwritten with 0: same footprint, same rooms in the same order
  with equal type, bounds and other fields, same corridors.
\<close>

definition same_random_state :: "World \<Rightarrow> World \<Rightarrow> bool" where
  "same_random_state w1 w2 \<longleftrightarrow> draws w1 = draws w2 \<and> draw_pos w1 = draw_pos w2"

definition forget_id :: "Room \<Rightarrow> Room" where
  "forget_id room = room\<lparr>room_id := 0\<rparr>"

definition same_up_to_ids :: "Layout \<Rightarrow> Layout \<Rightarrow> bool" where
  "same_up_to_ids l1 l2 \<longleftrightarrow>
     l1\<lparr>rooms := map forget_id (rooms l1)\<rparr> = l2\<lparr>rooms := map forget_id (rooms l2)\<rparr>"

definition sizes_rel ::
  "(RoomType \<times> real \<times> real) list \<times> World \<Rightarrow> (RoomType \<times> real \<times> real) list \<times> World \<Rightarrow> bool" where
  "sizes_rel s1 s2 \<longleftrightarrow> fst s1 = fst s2 \<and> same_random_state (snd s1) (snd s2)"

definition place_rel ::
  "Layout \<times> Rectangle list \<times> World \<Rightarrow> Layout \<times> Rectangle list \<times> World \<Rightarrow> bool" where
  "place_rel s1 s2 \<longleftrightarrow>
     (case s1 of (l1, sp1, w1) \<Rightarrow> case s2 of (l2, sp2, w2) \<Rightarrow>
        same_up_to_ids l1 l2 \<and> sp1 = sp2 \<and> same_random_state w1 w2)"

definition layout_rel :: "Layout \<times> World \<Rightarrow> Layout \<times> World \<Rightarrow> bool" where
  "layout_rel s1 s2 \<longleftrightarrow> same_up_to_ids (fst s1) (fst s2) \<and> same_random_state (snd s1) (snd s2)"

section \<open>Predicates and inputs of the evaluator claims\<close>

definition returns :: "py_error + 'a \<Rightarrow> bool" where
  "returns m = (case m of Inl e \<Rightarrow> False | Inr v \<Rightarrow> True)"

definition windowless_rooms :: "Layout \<Rightarrow> bool" where
  "windowless_rooms l \<longleftrightarrow>
     list_all (\<lambda>room. windows room = [] \<and> 0 < width (bounds room) \<and> 0 < height (bounds room))
       (rooms l)"

definition config_divisors_nonzero :: "EvaluationConfig \<Rightarrow> bool" where
  "config_divisors_nonzero cfg \<longleftrightarrow>
     ideal_utilization_rate cfg \<noteq> 0 \<and> window_area_ratio cfg \<noteq> 0 \<and>
     max_circulation_distance cfg \<noteq> 0"

definition bare_layout :: Layout where
  "bare_layout = Layout_init (Rectangle_init 0 0 20 15)"

definition one_room_layout :: Layout where
  "one_room_layout =
     Layout_add_room (Layout_init (Rectangle_init 0 0 20 15))
       (Room_init 0 BEDROOM (Rectangle_init 1 1 4 3) 0 None)"

definition zero_height_room_layout :: Layout where
  "zero_height_room_layout =
     Layout_add_room (Layout_init (Rectangle_init 0 0 20 15))
       (Room_init 0 LIVING_ROOM (Rectangle_init 1 1 4 0) 0 None)"

definition zero_footprint_layout :: Layout where
  "zero_footprint_layout =
     Layout_add_hallway (Layout_init (Rectangle_init 0 0 0 0)) (Rectangle_init 0 0 1 1)"

definition zero_width_window_layout :: Layout where
  "zero_width_window_layout =
     Layout_add_room (Layout_init (Rectangle_init 0 0 20 15))
       ((Room_init 0 BEDROOM (Rectangle_init 1 1 0 3) 0 None)\<lparr>windows := [Rectangle_init 1 1 0 1]\<rparr>)"

section \<open>Geometry: edges\<close>

lemmas rect_defs =
  Rectangle_left_def Rectangle_right_def Rectangle_top_def Rectangle_bottom_def
  Rectangle_init_def Point_init_def

lemma corners_on_edge:
  assumes "0 \<le> width r" "0 \<le> height r" "p \<in> set (Rectangle_get_corners r)"
  shows "on_edge r p"
  using assms by (auto simp: Rectangle_get_corners_def on_edge_def rect_defs)

text \<open>
  C3. Two rectangles that share a boundary edge do not intersect, and a point on an edge
  of a rectangle (corners included) is contained in it. The rectangle of the second part
  has non-negative width and height, as every rectangle of the data model has.
\<close>

theorem edge_sharing_and_edge_points:
  "(share_boundary_edge a b \<longrightarrow> \<not> Rectangle_intersects a b) \<and>
   (0 \<le> width r \<and> 0 \<le> height r \<and> on_edge r p \<longrightarrow> Rectangle_contains_point r p)"
  by (auto simp: share_boundary_edge_def Rectangle_intersects_def on_edge_def
      Rectangle_contains_point_def rect_defs)

theorem edge_sharing_and_edge_points_witness:
  "share_boundary_edge (Rectangle_init 0 0 2 3) (Rectangle_init 2 1 4 4) \<and>
   \<not> Rectangle_intersects (Rectangle_init 0 0 2 3) (Rectangle_init 2 1 4 4) \<and>
   on_edge (Rectangle_init 0 0 2 3) (Point_init 2 3) \<and>
   Rectangle_contains_point (Rectangle_init 0 0 2 3) (Point_init 2 3)"
proof -
  have e: "share_boundary_edge (Rectangle_init 0 0 2 3) (Rectangle_init 2 1 4 4)"
    by (simp add: share_boundary_edge_def rect_defs)
  have o: "on_edge (Rectangle_init 0 0 2 3) (Point_init 2 3)"
    by (simp add: on_edge_def rect_defs)
  have w: "0 \<le> width (Rectangle_init 0 0 2 3) \<and> 0 \<le> height (Rectangle_init 0 0 2 3)"
    by (simp add: rect_defs)
  from edge_sharing_and_edge_points
    [of "Rectangle_init 0 0 2 3" "Rectangle_init 2 1 4 4" "Rectangle_init 0 0 2 3" "Point_init 2 3"]
    e o w show ?thesis by blast
qed

section \<open>Exceptions: basic facts\<close>

lemma py_bind_simps [simp]: "py_bind (Inl e) f = Inl e" "py_bind (Inr v) f = f v"
  by (simp_all add: py_bind_def)

lemma py_div_nz: "b \<noteq> 0 \<Longrightarrow> py_div a b = Inr (a / b)"
  by (simp add: py_div_def)

lemma py_div_zero: "py_div a 0 = Inl ZeroDivisionError"
  by (simp add: py_div_def)

section \<open>The weighted total\<close>

lemma detailed_loop:
  "map_sum id snd (py_for evs (results, tot) (evaluate_detailed_body l)) =
   py_for evs tot (evaluate_body l)"
proof (induction evs arbitrary: results tot)
  case Nil
  show ?case by simp
next
  case (Cons ev evs)
  show ?case
  proof (cases "Evaluator_evaluate ev l")
    case (Inl e)
    then show ?thesis by (simp add: evaluate_detailed_body_def evaluate_body_def)
  next
    case (Inr v)
    then show ?thesis using Cons.IH
      by (simp add: evaluate_detailed_body_def evaluate_body_def Let_def)
  qed
qed

text \<open>
  C1. The entry \<open>total\<close> of the dictionary returned by \<open>evaluate_detailed\<close> exists and its
  \<open>weighted_score\<close> is the value returned by \<open>evaluate\<close>; when one of the two raises, the
  other raises the same exception. This holds for every list of evaluators and every layout.
\<close>

theorem evaluate_detailed_total_agrees:
  "(case evaluate_detailed m l of
      Inl e \<Rightarrow> evaluate m l = Inl e
    | Inr results \<Rightarrow>
        (\<exists>t. results ''total'' = Some t \<and> evaluate m l = Inr (res_weighted_score t)))"
proof -
  have eq: "map_sum id snd (py_for (evaluators m) (Map.empty, 0.0) (evaluate_detailed_body l)) =
        evaluate m l"
    unfolding evaluate_def by (rule detailed_loop)
  show ?thesis
  proof (cases "py_for (evaluators m) (Map.empty, 0.0) (evaluate_detailed_body l)")
    case (Inl e)
    with eq show ?thesis by (simp add: evaluate_detailed_def)
  next
    case (Inr p)
    with eq show ?thesis by (cases p) (auto simp: evaluate_detailed_def)
  qed
qed

lemma evaluator_names: "map evaluator_name (evaluators (MultiDimensionalEvaluator_init cfg)) =
   [''spaceefficiency'', ''lighting'', ''ventilation'', ''circulation'', ''comfort'']"
  unfolding MultiDimensionalEvaluator_init_def by code_simp

lemma ev_bare: "evaluate (MultiDimensionalEvaluator_init EvaluationConfig_default) bare_layout = Inr (3/8)"
  by (simp add: evaluate_def MultiDimensionalEvaluator_init_def evaluate_body_def Evaluator_evaluate_def
     Evaluator_init_def EvaluationConfig_default_def bare_layout_def Layout_init_def Rectangle_init_def
     SpaceEfficiencyEvaluator_evaluate_def LightingEvaluator_evaluate_def VentilationEvaluator_evaluate_def
     CirculationEvaluator_evaluate_def ComfortEvaluator_evaluate_def
     evaluate_utilization_rate_def Layout_utilization_rate_def Layout_room_area_def Layout_hallway_area_def
     Layout_total_area_def Rectangle_area_def evaluate_room_efficiency_def evaluate_hallway_efficiency_def
     evaluate_window_coverage_def evaluate_lighting_uniformity_def evaluate_lighting_sources_def
     Layout_get_rooms_by_type_def evaluate_ventilation_paths_def evaluate_cross_ventilation_def
     evaluate_air_circulation_def evaluate_connection_efficiency_def connection_body_def room_dict_def
     evaluate_path_lengths_def evaluate_circulation_intersections_def evaluate_noise_isolation_def
     evaluate_privacy_def evaluate_social_spaces_def social_spaces_body_def evaluate_functional_zoning_def
     zone_score_def py_div_def Let_def)

theorem evaluate_detailed_total_agrees_witness:
  "\<exists>results t. evaluate_detailed (MultiDimensionalEvaluator_init EvaluationConfig_default) bare_layout = Inr results
     \<and> results ''total'' = Some t \<and> res_weighted_score t = 3/8"
  using evaluate_detailed_total_agrees [of "MultiDimensionalEvaluator_init EvaluationConfig_default" bare_layout]
    ev_bare
  by (cases "evaluate_detailed (MultiDimensionalEvaluator_init EvaluationConfig_default) bare_layout") auto

section \<open>Defined and undefined scores\<close>

lemma returns_simps [simp]: "returns (Inr v)" "\<not> returns (Inl e)"
  by (simp_all add: returns_def)

lemma returns_iff: "returns m \<longleftrightarrow> (\<exists>v. m = Inr v)"
  by (cases m) simp_all

lemma returns_py_div [simp]: "returns (py_div a b) \<longleftrightarrow> b \<noteq> 0"
  by (simp add: py_div_def)

lemma returns_bind:
  "returns m \<Longrightarrow> (\<And>v. m = Inr v \<Longrightarrow> returns (f v)) \<Longrightarrow> returns (py_bind m f)"
  by (cases m) simp_all

lemma returns_mean:
  "returns (if xs \<noteq> [] then py_div (sum_list xs) (real (length xs)) else Inr d)"
  by simp

lemma returns_for:
  assumes "\<And>a s. a \<in> set as \<Longrightarrow> returns (body a s)"
  shows "returns (py_for as s body)"
  using assms
proof (induction as arbitrary: s)
  case Nil
  show ?case by simp
next
  case (Cons a as)
  show ?case
    by (simp, rule returns_bind) (simp_all add: Cons)
qed

lemma uniformity_loop:
  "list_all (\<lambda>room. windows room = []) rs \<Longrightarrow>
   py_for rs acc (lighting_uniformity_body cfg) = Inr (acc @ replicate (length rs) 0.3)"
proof (induction rs arbitrary: acc)
  case Nil
  show ?case by simp
next
  case (Cons r rs)
  then show ?case
    by (simp add: lighting_uniformity_body_def replicate_app_Cons_same)
qed

lemma uniformity_windowless:
  assumes "list_all (\<lambda>room. windows room = []) (rooms l)"
  shows "evaluate_lighting_uniformity cfg l = Inr (if rooms l = [] then 0 else 0.3)"
  using uniformity_loop [OF assms, of "[]" cfg]
  by (simp add: evaluate_lighting_uniformity_def py_div_def sum_list_replicate)

lemma window_coverage_ok:
  "window_area_ratio cfg \<noteq> 0 \<Longrightarrow> returns (evaluate_window_coverage cfg l)"
  by (auto simp: evaluate_window_coverage_def Let_def intro!: returns_bind)

lemma lighting_ok:
  assumes "list_all (\<lambda>room. windows room = []) (rooms l)" "window_area_ratio cfg \<noteq> 0"
  shows "returns (LightingEvaluator_evaluate cfg l)"
  unfolding LightingEvaluator_evaluate_def
  by (intro returns_bind window_coverage_ok assms)
     (simp_all add: uniformity_windowless [OF assms(1)] Let_def)

lemma area_appropriateness_ok: "returns (evaluate_area_appropriateness room)"
  by (cases "room_type room") (auto simp: evaluate_area_appropriateness_def intro!: returns_bind)

lemma room_efficiency_body_ok:
  "height (bounds room) \<noteq> 0 \<Longrightarrow> returns (room_efficiency_body room t)"
  unfolding room_efficiency_body_def Let_def
  by (intro returns_bind area_appropriateness_ok) simp_all

lemma room_efficiency_ok:
  assumes "list_all (\<lambda>room. height (bounds room) \<noteq> 0) (rooms l)"
  shows "returns (evaluate_room_efficiency l)"
  using assms unfolding evaluate_room_efficiency_def
  by (auto simp: list_all_iff intro!: returns_bind returns_for room_efficiency_body_ok)

lemma hallway_efficiency_ok:
  "hallways l = [] \<or> Layout_total_area l \<noteq> 0 \<Longrightarrow> returns (evaluate_hallway_efficiency l)"
  by (auto simp: evaluate_hallway_efficiency_def intro!: returns_bind)

lemma space_ok:
  assumes "list_all (\<lambda>room. height (bounds room) \<noteq> 0) (rooms l)"
    "hallways l = [] \<or> Layout_total_area l \<noteq> 0" "ideal_utilization_rate cfg \<noteq> 0"
  shows "returns (SpaceEfficiencyEvaluator_evaluate cfg l)"
  unfolding SpaceEfficiencyEvaluator_evaluate_def
  by (intro returns_bind room_efficiency_ok hallway_efficiency_ok assms)
     (simp_all add: evaluate_utilization_rate_def Let_def returns_bind assms(3))

lemma ventilation_ok: "returns (VentilationEvaluator_evaluate cfg l)"
  unfolding VentilationEvaluator_evaluate_def
  by (intro returns_bind)
     (auto simp: evaluate_ventilation_paths_def evaluate_cross_ventilation_def
        evaluate_air_circulation_def Let_def intro!: returns_bind)

lemma connection_ok:
  assumes "max_circulation_distance cfg \<noteq> 0"
  shows "returns (evaluate_connection_efficiency cfg l)"
  unfolding evaluate_connection_efficiency_def Let_def
  using assms
  by (intro returns_bind returns_for)
     (auto simp: connection_body_def Let_def split: option.splits intro!: returns_bind)

lemma path_lengths_ok:
  "hallways l = [] \<or> Layout_total_area l \<noteq> 0 \<Longrightarrow> returns (evaluate_path_lengths l)"
  by (auto simp: evaluate_path_lengths_def Let_def intro!: returns_bind)

lemma intersections_ok: "returns (evaluate_circulation_intersections l)"
  by (auto simp: evaluate_circulation_intersections_def Let_def intro!: returns_bind)

lemma circulation_ok:
  assumes "max_circulation_distance cfg \<noteq> 0" "hallways l = [] \<or> Layout_total_area l \<noteq> 0"
  shows "returns (CirculationEvaluator_evaluate cfg l)"
  unfolding CirculationEvaluator_evaluate_def
  by (intro returns_bind connection_ok path_lengths_ok intersections_ok assms) simp

lemma room_dict_in_rooms: "room_dict l rt = Some room \<Longrightarrow> room \<in> set (rooms l)"
  by (auto simp: room_dict_def dest!: map_of_SomeD)

lemma social_body_ok:
  assumes "list_all (\<lambda>room. height (bounds room) \<noteq> 0) (rooms l)"
  shows "returns (social_spaces_body l rt s)"
proof (cases "room_dict l rt")
  case None
  then show ?thesis by (simp add: social_spaces_body_def)
next
  case (Some room)
  with assms room_dict_in_rooms [OF Some] have "height (bounds room) \<noteq> 0"
    by (simp add: list_all_iff)
  with Some show ?thesis
    by (auto simp: social_spaces_body_def Let_def intro!: returns_bind)
qed

lemma social_ok:
  assumes "list_all (\<lambda>room. height (bounds room) \<noteq> 0) (rooms l)"
  shows "returns (evaluate_social_spaces cfg l)"
  unfolding evaluate_social_spaces_def Let_def
  by (intro returns_bind returns_for social_body_ok assms) simp

lemma zone_score_ok: "returns (zone_score l zone)"
  by (auto simp: zone_score_def Let_def intro!: returns_bind)

lemma py_for_append_length:
  assumes "py_for zs acc (\<lambda>z scores. py_bind (f z) (\<lambda>s. Inr (scores @ [s]))) = Inr r"
  shows "length r = length acc + length zs"
  using assms
proof (induction zs arbitrary: acc)
  case Nil
  then show ?case by simp
next
  case (Cons z zs)
  then show ?case by (cases "f z") auto
qed

lemma zoning_ok: "returns (evaluate_functional_zoning l)"
  unfolding evaluate_functional_zoning_def Let_def
proof (rule returns_bind)
  show "returns (py_for [[LIVING_ROOM, DINING_ROOM], [BEDROOM, STUDY], [KITCHEN, BATHROOM]] []
          (\<lambda>zone zone_scores. py_bind (zone_score l zone) (\<lambda>s. Inr (zone_scores @ [s]))))"
    by (intro returns_for returns_bind zone_score_ok) simp
next
  fix v :: "real list"
  assume "py_for [[LIVING_ROOM, DINING_ROOM], [BEDROOM, STUDY], [KITCHEN, BATHROOM]] []
          (\<lambda>zone zone_scores. py_bind (zone_score l zone) (\<lambda>s. Inr (zone_scores @ [s]))) = Inr v"
  from py_for_append_length [OF this] show "returns (py_div (sum_list v) (real (length v)))"
    by simp
qed

lemma comfort_ok:
  assumes "list_all (\<lambda>room. height (bounds room) \<noteq> 0) (rooms l)"
  shows "returns (ComfortEvaluator_evaluate cfg l)"
  unfolding ComfortEvaluator_evaluate_def
proof (intro returns_bind social_ok zoning_ok assms)
  show "returns (evaluate_noise_isolation l)"
    unfolding evaluate_noise_isolation_def Let_def by (rule returns_mean)
  show "returns (evaluate_privacy l)"
    unfolding evaluate_privacy_def Let_def by (rule returns_mean)
qed simp

lemmas layout_defs = Layout_init_def Layout_add_room_def Layout_add_hallway_def Room_init_def
  Rectangle_init_def Point_init_def

lemma evaluate_ok:
  assumes "list_all (\<lambda>room. windows room = []) (rooms l)"
    "list_all (\<lambda>room. height (bounds room) \<noteq> 0) (rooms l)"
    "config_divisors_nonzero cfg" "hallways l = [] \<or> Layout_total_area l \<noteq> 0"
  shows "returns (evaluate (MultiDimensionalEvaluator_init cfg) l)"
  unfolding evaluate_def
proof (rule returns_for)
  fix a s
  assume "a \<in> set (evaluators (MultiDimensionalEvaluator_init cfg))"
  then have "returns (Evaluator_evaluate a l)"
    using assms space_ok [of l cfg] lighting_ok [of l cfg] ventilation_ok [of cfg l]
      circulation_ok [of cfg l] comfort_ok [of l cfg]
    by (auto simp: MultiDimensionalEvaluator_init_def Evaluator_init_def Evaluator_evaluate_def
        config_divisors_nonzero_def)
  then show "returns (evaluate_body l a s)"
    unfolding evaluate_body_def Let_def by (rule returns_bind) simp
qed

text \<open>
  C8, as amended. In a layout whose rooms all have an empty windows list and positive width and
  height, the lighting-uniformity score is 0.3 as soon as there is a room (0 only without rooms);
  the lighting score is defined when \<open>window_area_ratio\<close> is non-zero, and the overall
  \<open>evaluate\<close> is defined when moreover the other two divisors of the configuration are
  non-zero and the layout has no corridor or a footprint of non-zero area.
\<close>

theorem windowless_lighting:
  assumes "windowless_rooms l"
  shows "evaluate_lighting_uniformity cfg l = Inr (if rooms l = [] then 0 else 0.3) \<and>
    (window_area_ratio cfg \<noteq> 0 \<longrightarrow> (\<exists>v. LightingEvaluator_evaluate cfg l = Inr v)) \<and>
    (config_divisors_nonzero cfg \<and> (hallways l = [] \<or> Layout_total_area l \<noteq> 0) \<longrightarrow>
       (\<exists>v. evaluate (MultiDimensionalEvaluator_init cfg) l = Inr v))"
proof -
  from assms have w: "list_all (\<lambda>room. windows room = []) (rooms l)"
    and h: "list_all (\<lambda>room. height (bounds room) \<noteq> 0) (rooms l)"
    by (auto simp: windowless_rooms_def list_all_iff)
  show ?thesis
    using uniformity_windowless [OF w, of cfg] lighting_ok [OF w, of cfg] evaluate_ok [OF w h, of cfg]
    by (auto simp: returns_iff)
qed

lemma windowless_one: "windowless_rooms one_room_layout"
  by (simp add: windowless_rooms_def one_room_layout_def layout_defs)

lemma default_nonzero: "config_divisors_nonzero EvaluationConfig_default"
  by (simp add: config_divisors_nonzero_def EvaluationConfig_default_def)

theorem windowless_lighting_witness:
  "windowless_rooms one_room_layout \<and>
   evaluate_lighting_uniformity EvaluationConfig_default one_room_layout = Inr 0.3 \<and>
   (\<exists>v. LightingEvaluator_evaluate EvaluationConfig_default one_room_layout = Inr v) \<and>
   (\<exists>v. evaluate (MultiDimensionalEvaluator_init EvaluationConfig_default) one_room_layout = Inr v)"
proof -
  have r: "rooms one_room_layout \<noteq> []" "hallways one_room_layout = []"
    by (simp_all add: one_room_layout_def layout_defs)
  have z: "window_area_ratio EvaluationConfig_default \<noteq> 0"
    by (simp add: EvaluationConfig_default_def)
  from windowless_lighting [OF windowless_one, of EvaluationConfig_default] r z default_nonzero
    windowless_one
  show ?thesis by simp
qed

text \<open>
  C8, as stated, fails for one windowless bedroom of 4 by 3: the uniformity term is 0.3, and it
  is the whole lighting score, 0.4 * 0.3.
\<close>

theorem windowless_uniformity_counterexample:
  "windowless_rooms one_room_layout \<and>
   evaluate_lighting_uniformity EvaluationConfig_default one_room_layout = Inr (3/10) \<and>
   evaluate_lighting_uniformity EvaluationConfig_default one_room_layout \<noteq> Inr 0 \<and>
   LightingEvaluator_evaluate EvaluationConfig_default one_room_layout = Inr (0.4 * (3/10))"
proof -
  have u: "evaluate_lighting_uniformity EvaluationConfig_default one_room_layout = Inr (3/10)"
    by (simp add: evaluate_lighting_uniformity_def one_room_layout_def layout_defs
        lighting_uniformity_body_def py_div_def)
  have c: "evaluate_window_coverage EvaluationConfig_default one_room_layout = Inr 0"
    by (simp add: evaluate_window_coverage_def one_room_layout_def layout_defs
        EvaluationConfig_default_def py_div_def)
  have s: "evaluate_lighting_sources one_room_layout = 0"
    by (simp add: evaluate_lighting_sources_def one_room_layout_def layout_defs
        Layout_get_rooms_by_type_def lighting_sources_room_def)
  show ?thesis using windowless_one u c s
    by (simp add: LightingEvaluator_evaluate_def)
qed

text \<open>
  C7. The claim that no sub-evaluator raises fails on the code: a room of height zero makes the
  space-efficiency and comfort evaluators raise ZeroDivisionError, a corridor in a footprint of
  area zero makes the space-efficiency and circulation evaluators raise it, and a room of area
  zero with a window makes the lighting evaluator raise it.
\<close>

theorem degenerate_geometry_raises:
  "SpaceEfficiencyEvaluator_evaluate EvaluationConfig_default zero_height_room_layout = Inl ZeroDivisionError \<and>
   ComfortEvaluator_evaluate EvaluationConfig_default zero_height_room_layout = Inl ZeroDivisionError \<and>
   SpaceEfficiencyEvaluator_evaluate EvaluationConfig_default zero_footprint_layout = Inl ZeroDivisionError \<and>
   CirculationEvaluator_evaluate EvaluationConfig_default zero_footprint_layout = Inl ZeroDivisionError \<and>
   LightingEvaluator_evaluate EvaluationConfig_default zero_width_window_layout = Inl ZeroDivisionError"
proof -
  have a: "evaluate_room_efficiency zero_height_room_layout = Inl ZeroDivisionError"
    by (simp add: evaluate_room_efficiency_def zero_height_room_layout_def layout_defs
        room_efficiency_body_def py_div_def)
  have u: "\<And>l. returns (evaluate_utilization_rate EvaluationConfig_default (Layout_utilization_rate l))"
    by (simp add: evaluate_utilization_rate_def Let_def EvaluationConfig_default_def returns_bind)
  have b: "evaluate_social_spaces EvaluationConfig_default zero_height_room_layout = Inl ZeroDivisionError"
    by (simp add: evaluate_social_spaces_def zero_height_room_layout_def layout_defs
        social_spaces_body_def room_dict_def py_div_def)
  have n: "returns (evaluate_noise_isolation zero_height_room_layout)"
    unfolding evaluate_noise_isolation_def Let_def by (rule returns_mean)
  have p: "returns (evaluate_privacy zero_height_room_layout)"
    unfolding evaluate_privacy_def Let_def by (rule returns_mean)
  have c: "evaluate_hallway_efficiency zero_footprint_layout = Inl ZeroDivisionError"
    by (simp add: evaluate_hallway_efficiency_def zero_footprint_layout_def layout_defs
        Layout_total_area_def Rectangle_area_def py_div_def)
  have r: "returns (evaluate_room_efficiency zero_footprint_layout)"
    by (simp add: evaluate_room_efficiency_def zero_footprint_layout_def layout_defs)
  have d: "evaluate_path_lengths zero_footprint_layout = Inl ZeroDivisionError"
    by (simp add: evaluate_path_lengths_def zero_footprint_layout_def layout_defs
        Layout_total_area_def Rectangle_area_def py_div_def)
  have e: "returns (evaluate_connection_efficiency EvaluationConfig_default zero_footprint_layout)"
    by (rule connection_ok) (simp add: EvaluationConfig_default_def)
  have w: "returns (evaluate_window_coverage EvaluationConfig_default zero_width_window_layout)"
    by (rule window_coverage_ok) (simp add: EvaluationConfig_default_def)
  have f: "evaluate_lighting_uniformity EvaluationConfig_default zero_width_window_layout = Inl ZeroDivisionError"
    by (simp add: evaluate_lighting_uniformity_def zero_width_window_layout_def layout_defs
        lighting_uniformity_body_def py_div_def Room_area_def Rectangle_area_def
        EvaluationConfig_default_def Let_def)
  show ?thesis
    using a u [of zero_height_room_layout] u [of zero_footprint_layout] b n p c r d e w f
    by (auto simp: SpaceEfficiencyEvaluator_evaluate_def ComfortEvaluator_evaluate_def
        CirculationEvaluator_evaluate_def LightingEvaluator_evaluate_def returns_iff)
qed

section \<open>The generator always returns\<close>

lemma random_random_nonneg: "random_random w = (u, w') \<Longrightarrow> 0 \<le> u \<and> u < 1"
  by (auto simp: random_random_def next_draw_def)

lemma random_uniform_ge:
  assumes "random_uniform a b w = (v, w')" "a \<le> b"
  shows "a \<le> v"
proof -
  obtain u w1 where u: "random_random w = (u, w1)" by (cases "random_random w")
  from random_random_nonneg [OF u] have "0 \<le> u" by simp
  with assms(2) have "0 \<le> (b - a) * u" by simp
  with assms(1) u show ?thesis by (simp add: random_uniform_def)
qed

lemma generate_random_size_ok:
  assumes "0 < tmpl_min_area t" "tmpl_min_area t \<le> tmpl_max_area t"
    "0 < aspect_ratio_min t" "aspect_ratio_min t \<le> aspect_ratio_max t"
  shows "returns (generate_random_size t w)"
proof -
  obtain area w1 where a: "random_uniform (tmpl_min_area t) (tmpl_max_area t) w = (area, w1)"
    by (cases "random_uniform (tmpl_min_area t) (tmpl_max_area t) w")
  obtain ratio w2 where r: "random_uniform (aspect_ratio_min t) (aspect_ratio_max t) w1 = (ratio, w2)"
    by (cases "random_uniform (aspect_ratio_min t) (aspect_ratio_max t) w1")
  from random_uniform_ge [OF a assms(2)] assms(1) have "0 < area" by simp
  moreover from random_uniform_ge [OF r assms(4)] assms(3) have "0 < ratio" by simp
  ultimately have "sqrt (area * ratio) \<noteq> 0" by simp
  then show ?thesis
    by (simp add: generate_random_size_def a r Let_def returns_bind)
qed

lemma templates_ok:
  "room_templates rt = Some t \<Longrightarrow> returns (generate_random_size t w)"
  by (cases rt) (auto intro!: generate_random_size_ok simp: RoomTemplate_init_def)

lemma sample_size_body_ok:
  "\<exists>w h world'. sample_size_body rt i (acc, world) = Inr (acc @ [(rt, w, h)], world')"
proof -
  obtain t where t: "room_templates rt = Some t" by (cases rt) simp_all
  from templates_ok [OF t, of world] obtain r where "generate_random_size t world = Inr r"
    by (auto simp: returns_iff)
  with t show ?thesis by (cases r) (auto simp: sample_size_body_def)
qed

lemma sample_inner_loop:
  "\<exists>acc' world'. py_for xs (acc, world) (sample_size_body rt) = Inr (acc', world') \<and>
      length acc' = length acc + length xs"
proof (induction xs arbitrary: acc world)
  case Nil
  show ?case by simp
next
  case (Cons x xs)
  from sample_size_body_ok [of rt x acc world] obtain w h world1
    where b: "sample_size_body rt x (acc, world) = Inr (acc @ [(rt, w, h)], world1)" by blast
  from Cons.IH [of "acc @ [(rt, w, h)]" world1] b show ?case by auto
qed

lemma sample_outer_loop:
  "\<exists>acc' world'.
     py_for reqs (acc, world) (\<lambda>(rt, count) st. py_for (py_range count) st (sample_size_body rt))
       = Inr (acc', world') \<and>
     length acc' = length acc + (\<Sum>(rt, count)\<leftarrow>reqs. nat count)"
proof (induction reqs arbitrary: acc world)
  case Nil
  show ?case by simp
next
  case (Cons rq reqs)
  obtain rt count where rq: "rq = (rt, count)" by (cases rq)
  from sample_inner_loop [of "py_range count" acc world rt] obtain acc1 world1
    where i: "py_for (py_range count) (acc, world) (sample_size_body rt) = Inr (acc1, world1)"
      and l: "length acc1 = length acc + nat count"
    by (auto simp: py_range_def)
  from Cons.IH [of acc1 world1] i l rq show ?case by auto
qed

lemma sample_room_sizes_ok:
  "\<exists>rs world'. sample_room_sizes reqs world = Inr (rs, world') \<and>
     length rs = (\<Sum>(rt, count)\<leftarrow>reqs. nat count)"
  using sample_outer_loop [of reqs "[]" world] by (simp add: sample_room_sizes_def)

lemma shuffle_loop_length:
  "length (fst (foldl (\<lambda>(x, w) i. case randbelow (i + 1) w of (j, w') \<Rightarrow> (x[i := x ! j, j := x ! i], w'))
       (x, w) is)) = length x"
proof (induction "is" arbitrary: x w)
  case Nil
  show ?case by simp
next
  case (Cons i "is")
  obtain j w1 where r: "randbelow (i + 1) w = (j, w1)" by (cases "randbelow (i + 1) w")
  from Cons [of "x[i := x ! j, j := x ! i]" w1] r show ?case by simp
qed

lemma random_shuffle_length: "random_shuffle x w = (y, w') \<Longrightarrow> length y = length x"
  using shuffle_loop_length [of x w "rev [1..<length x]"] by (simp add: random_shuffle_def)

lemma compact_place_room_length:
  "compact_place_room gen layout rt w h world = (layout', world') \<Longrightarrow>
     length (rooms layout') \<le> length (rooms layout) + 1"
  by (auto simp: compact_place_room_def Let_def Room_new_def Layout_add_room_def
      split: option.splits prod.splits)

lemma place_room_body_length:
  "place_room_body gen (layout, spaces, world) item = (layout', spaces', world') \<Longrightarrow>
     length (rooms layout') \<le> length (rooms layout) + 1"
  by (auto simp: place_room_body_def Let_def Room_new_def Layout_add_room_def
      split: option.splits prod.splits dest: compact_place_room_length)

lemma place_loop_length:
  "foldl (place_room_body gen) (layout, spaces, world) items = (layout', spaces', world') \<Longrightarrow>
     length (rooms layout') \<le> length (rooms layout) + length items"
proof (induction items arbitrary: layout spaces world)
  case Nil
  then show ?case by simp
next
  case (Cons item items)
  obtain l1 s1 w1 where b: "place_room_body gen (layout, spaces, world) item = (l1, s1, w1)"
    by (cases "place_room_body gen (layout, spaces, world) item") auto
  from Cons.prems b have "foldl (place_room_body gen) (l1, s1, w1) items = (layout', spaces', world')"
    by simp
  from Cons.IH [OF this] place_room_body_length [OF b] show ?case by simp
qed

lemma place_rooms_length:
  "place_rooms_rectangular_split gen layout items world = (layout', world') \<Longrightarrow>
     length (rooms layout') \<le> length (rooms layout) + length items"
  by (auto simp: place_rooms_rectangular_split_def split: prod.splits dest: place_loop_length)

lemma hallway_step_rooms: "rooms (fst (hallway_step hw m st room)) = rooms (fst st)"
  by (cases st) (simp add: hallway_step_def Layout_add_hallway_def split: prod.splits)

lemma hallway_loop_rooms: "rooms (fst (foldl (hallway_step hw m) st rs)) = rooms (fst st)"
  by (induction rs arbitrary: st) (simp_all add: hallway_step_rooms)

lemma add_hallways_rooms: "rooms (fst (add_hallways gen layout world)) = rooms layout"
  by (cases "Layout_get_rooms_by_type layout LIVING_ROOM")
     (simp_all add: add_hallways_def Let_def hallway_loop_rooms)

text \<open>
  C5. \<open>generate_random_layout\<close> returns a layout for every generator, footprint,
  requirements and random state: no division in it can fail, and all its loops are bounded.
  The layout has at most as many rooms as were requested, a count below 1 requesting none
  (\<open>range(count)\<close> is then empty). No assumption on the footprint is needed.
\<close>

theorem generate_random_layout_returns:
  "\<exists>layout world'.
     generate_random_layout gen bnds room_requirements world = Inr (layout, world') \<and>
     length (rooms layout) \<le> (\<Sum>(rt, count)\<leftarrow>room_requirements. nat count)"
proof -
  from sample_room_sizes_ok [of room_requirements world] obtain rs w1
    where s: "sample_room_sizes room_requirements world = Inr (rs, w1)"
      and l: "length rs = (\<Sum>(rt, count)\<leftarrow>room_requirements. nat count)" by blast
  obtain sh w2 where sh: "random_shuffle rs w1 = (sh, w2)" by (cases "random_shuffle rs w1")
  obtain l3 w3 where p: "place_rooms_rectangular_split gen (Layout_init bnds) sh w2 = (l3, w3)"
    by (cases "place_rooms_rectangular_split gen (Layout_init bnds) sh w2")
  obtain l4 w4 where h: "add_hallways gen l3 w3 = (l4, w4)" by (cases "add_hallways gen l3 w3")
  from add_hallways_rooms [of gen l3 w3] h have "rooms l4 = rooms l3" by simp
  moreover from place_rooms_length [OF p] have "length (rooms l3) \<le> length sh"
    by (simp add: Layout_init_def)
  moreover from random_shuffle_length [OF sh] have "length sh = length rs" .
  ultimately have "length (rooms l4) \<le> (\<Sum>(rt, count)\<leftarrow>room_requirements. nat count)"
    using l by simp
  with s sh p h show ?thesis by (simp add: generate_random_layout_def)
qed

lemma sqrt_9: "sqrt 9 = 3"
  using real_sqrt_abs [of 3] by simp

lemma kitchen_size:
  "generate_random_size (RoomTemplate_init KITCHEN 6 20 (3/5) (9/5)) (kitchen_world a) =
     Inr ((3, 2), (kitchen_world a)\<lparr>draw_pos := 2\<rparr>)"
  by (simp add: generate_random_size_def random_uniform_def random_random_def next_draw_def
      kitchen_world_def RoomTemplate_init_def sqrt_9 py_div_def Let_def)

lemma kitchen_sizes:
  "sample_room_sizes [(KITCHEN, 1)] (kitchen_world a) =
     Inr ([(KITCHEN, 3, 2)], (kitchen_world a)\<lparr>draw_pos := 2\<rparr>)"
  by (simp add: sample_room_sizes_def py_range_def sample_size_body_def kitchen_size)

lemma shuffle_single: "random_shuffle [x] w = ([x], w)"
  by (simp add: random_shuffle_def)

lemma kitchen_generated:
  "generate_random_layout default_generator (Rectangle_init 0 0 20 15) [(KITCHEN, 1)] (kitchen_world a) =
     Inr ((Layout_init (Rectangle_init 0 0 20 15))
            \<lparr>rooms := [Room_init (a 0) KITCHEN (Rectangle_init (1/5) (1/5) 3 2) 0 None]\<rparr>,
          (kitchen_world a)\<lparr>draw_pos := 4, alloc_pos := 1\<rparr>)"
  unfolding generate_random_layout_def kitchen_sizes
  by (simp add: shuffle_single
      place_rooms_rectangular_split_def place_room_body_def can_place_room_in_space_def
      choose_position_in_space_def random_random_def next_draw_def Room_new_def
      default_generator_def RandomLayoutGenerator_init_def MonteCarloConfig_default_def
      Layout_init_def Layout_add_room_def Rectangle_init_def kitchen_world_def add_hallways_def Let_def)

lemma kitchen_omitted:
  "generate_random_layout default_generator (Rectangle_init 0 0 2 2) [(KITCHEN, 1)] (kitchen_world a) =
     Inr (Layout_init (Rectangle_init 0 0 2 2), (kitchen_world a)\<lparr>draw_pos := 2\<rparr>)"
  unfolding generate_random_layout_def kitchen_sizes
  by (simp add: shuffle_single
      place_rooms_rectangular_split_def place_room_body_def can_place_room_in_space_def
      compact_place_room_def compact_position_ok_def py_int_def py_range_def
      default_generator_def RandomLayoutGenerator_init_def MonteCarloConfig_default_def
      Layout_init_def Rectangle_init_def Rectangle_right_def Rectangle_bottom_def
      add_hallways_def Let_def upt_rec)

text \<open>
  In a footprint of 2 by 2 the kitchen of 3 by 2 fits neither the free region nor any grid
  position and is dropped: the layout has fewer rooms than requested.
\<close>

theorem generate_random_layout_returns_witness:
  "\<exists>layout world'.
     generate_random_layout default_generator (Rectangle_init 0 0 2 2) [(KITCHEN, 1)] (kitchen_world id)
       = Inr (layout, world') \<and>
     length (rooms layout) \<le> 1 \<and> length (rooms layout) < 1"
  using generate_random_layout_returns
      [of default_generator "Rectangle_init 0 0 2 2" "[(KITCHEN, 1)]" "kitchen_world id"]
    kitchen_omitted [of id]
  by (auto simp: Layout_init_def)

section \<open>Determinism of the generator\<close>

lemma same_up_to_ids_iff:
  "same_up_to_ids l1 l2 \<longleftrightarrow>
     layout_bounds l1 = layout_bounds l2 \<and> map forget_id (rooms l1) = map forget_id (rooms l2) \<and>
     hallways l1 = hallways l2 \<and> fitness_score l1 = fitness_score l2 \<and>
     generation_id l1 = generation_id l2 \<and> metadata l1 = metadata l2"
  by (cases l1, cases l2) (auto simp: same_up_to_ids_def)

lemma forget_id_fields:
  "forget_id r1 = forget_id r2 \<Longrightarrow>
     room_type r1 = room_type r2 \<and> bounds r1 = bounds r2 \<and> min_area r1 = min_area r2 \<and>
     orientation r1 = orientation r2 \<and> furniture r1 = furniture r2 \<and> doors r1 = doors r2 \<and>
     windows r1 = windows r2"
  by (cases r1, cases r2) (simp add: forget_id_def)

lemma forget_map:
  assumes "map forget_id rs1 = map forget_id rs2" "\<And>r. f r = g (forget_id r)"
  shows "map f rs1 = map f rs2"
proof -
  have "map f rs1 = map g (map forget_id rs1)" by (simp add: assms(2))
  also have "\<dots> = map g (map forget_id rs2)" by (simp only: assms(1))
  also have "\<dots> = map f rs2" by (simp add: assms(2))
  finally show ?thesis .
qed

lemma forget_bounds: "map forget_id rs1 = map forget_id rs2 \<Longrightarrow> map bounds rs1 = map bounds rs2"
  by (rule forget_map [where g = bounds]) (simp_all add: forget_id_def)

lemma forget_types: "map forget_id rs1 = map forget_id rs2 \<Longrightarrow> map room_type rs1 = map room_type rs2"
  by (rule forget_map [where g = room_type]) (simp_all add: forget_id_def)

lemma next_draw_same:
  "same_random_state w1 w2 \<Longrightarrow> next_draw w1 = (d1, v1) \<Longrightarrow> next_draw w2 = (d2, v2) \<Longrightarrow>
     d1 = d2 \<and> same_random_state v1 v2"
  by (auto simp: same_random_state_def next_draw_def)

lemma random_random_same:
  "same_random_state w1 w2 \<Longrightarrow> random_random w1 = (u1, v1) \<Longrightarrow> random_random w2 = (u2, v2) \<Longrightarrow>
     u1 = u2 \<and> same_random_state v1 v2"
  by (auto simp: random_random_def split: prod.splits dest: next_draw_same)

lemma random_uniform_same:
  "same_random_state w1 w2 \<Longrightarrow> random_uniform a b w1 = (u1, v1) \<Longrightarrow>
     random_uniform a b w2 = (u2, v2) \<Longrightarrow> u1 = u2 \<and> same_random_state v1 v2"
  by (auto simp: random_uniform_def split: prod.splits dest: random_random_same)

lemma randbelow_same:
  "same_random_state w1 w2 \<Longrightarrow> randbelow n w1 = (j1, v1) \<Longrightarrow> randbelow n w2 = (j2, v2) \<Longrightarrow>
     j1 = j2 \<and> same_random_state v1 v2"
  by (auto simp: randbelow_def split: prod.splits dest: next_draw_same)

lemma Room_new_same:
  "same_random_state w1 w2 \<Longrightarrow> Room_new t b m ori w1 = (r1, v1) \<Longrightarrow>
     Room_new t b m ori w2 = (r2, v2) \<Longrightarrow> forget_id r1 = forget_id r2 \<and> same_random_state v1 v2"
  by (auto simp: Room_new_def Room_init_def forget_id_def same_random_state_def)

lemma py_for_rel:
  assumes "R s1 s2"
    "\<And>a s1 s2. a \<in> set xs \<Longrightarrow> R s1 s2 \<Longrightarrow> rel_sum (=) R (body a s1) (body a s2)"
  shows "rel_sum (=) R (py_for xs s1 body) (py_for xs s2 body)"
  using assms
proof (induction xs arbitrary: s1 s2)
  case Nil
  then show ?case by simp
next
  case (Cons a xs)
  from Cons.prems have r: "rel_sum (=) R (body a s1) (body a s2)" by simp
  show ?case
  proof (cases "body a s1")
    case (Inl e1)
    with r show ?thesis by (cases "body a s2") simp_all
  next
    case (Inr t1)
    with r obtain t2 where t2: "body a s2 = Inr t2" "R t1 t2" by (cases "body a s2") simp_all
    from Cons.IH [of t1 t2] Cons.prems(2) t2 Inr show ?thesis by simp
  qed
qed

lemma foldl_rel:
  assumes "R s1 s2" "\<And>a s1 s2. a \<in> set xs \<Longrightarrow> R s1 s2 \<Longrightarrow> R (f s1 a) (f s2 a)"
  shows "R (foldl f s1 xs) (foldl f s2 xs)"
  using assms by (induction xs arbitrary: s1 s2) simp_all

lemma generate_random_size_same:
  assumes "same_random_state w1 w2"
  shows "rel_sum (=) (\<lambda>r1 r2. fst r1 = fst r2 \<and> same_random_state (snd r1) (snd r2))
           (generate_random_size t w1) (generate_random_size t w2)"
proof -
  obtain a1 v1 where a1: "random_uniform (tmpl_min_area t) (tmpl_max_area t) w1 = (a1, v1)"
    by (cases "random_uniform (tmpl_min_area t) (tmpl_max_area t) w1")
  obtain a2 v2 where a2: "random_uniform (tmpl_min_area t) (tmpl_max_area t) w2 = (a2, v2)"
    by (cases "random_uniform (tmpl_min_area t) (tmpl_max_area t) w2")
  from random_uniform_same [OF assms a1 a2] have a: "a1 = a2" and v: "same_random_state v1 v2"
    by simp_all
  obtain r1 u1 where r1: "random_uniform (aspect_ratio_min t) (aspect_ratio_max t) v1 = (r1, u1)"
    by (cases "random_uniform (aspect_ratio_min t) (aspect_ratio_max t) v1")
  obtain r2 u2 where r2: "random_uniform (aspect_ratio_min t) (aspect_ratio_max t) v2 = (r2, u2)"
    by (cases "random_uniform (aspect_ratio_min t) (aspect_ratio_max t) v2")
  from random_uniform_same [OF v r1 r2] have r: "r1 = r2" and u: "same_random_state u1 u2"
    by simp_all
  show ?thesis using a r u
    by (simp add: generate_random_size_def a1 a2 r1 r2 Let_def py_div_def)
qed

lemma sample_size_body_same:
  assumes "sizes_rel s1 s2"
  shows "rel_sum (=) sizes_rel (sample_size_body rt i s1) (sample_size_body rt i s2)"
proof -
  obtain a1 w1 a2 w2 where s: "s1 = (a1, w1)" "s2 = (a2, w2)" by (cases s1, cases s2)
  with assms have a: "a1 = a2" and w: "same_random_state w1 w2" by (simp_all add: sizes_rel_def)
  obtain t where t: "room_templates rt = Some t" by (cases rt) simp_all
  from generate_random_size_same [OF w, of t] show ?thesis
    by (cases "generate_random_size t w1"; cases "generate_random_size t w2")
       (auto simp: sample_size_body_def s a t sizes_rel_def)
qed

lemma sample_room_sizes_same:
  assumes "same_random_state w1 w2"
  shows "rel_sum (=) sizes_rel (sample_room_sizes reqs w1) (sample_room_sizes reqs w2)"
  unfolding sample_room_sizes_def
proof (rule py_for_rel)
  show "sizes_rel ([], w1) ([], w2)" using assms by (simp add: sizes_rel_def)
next
  fix a s1 s2 assume "sizes_rel s1 s2"
  then show "rel_sum (=) sizes_rel
          ((case a of (rt, count) \<Rightarrow> \<lambda>st. py_for (py_range count) st (sample_size_body rt)) s1)
          ((case a of (rt, count) \<Rightarrow> \<lambda>st. py_for (py_range count) st (sample_size_body rt)) s2)"
    by (cases a) (auto intro!: py_for_rel sample_size_body_same)
qed

lemma shuffle_loop_same:
  assumes "same_random_state w1 w2"
  shows "sizes_rel
     (foldl (\<lambda>(x, w) i. case randbelow (i + 1) w of (j, w') \<Rightarrow> (x[i := x ! j, j := x ! i], w')) (x, w1) is)
     (foldl (\<lambda>(x, w) i. case randbelow (i + 1) w of (j, w') \<Rightarrow> (x[i := x ! j, j := x ! i], w')) (x, w2) is)"
  using assms
proof (induction "is" arbitrary: x w1 w2)
  case Nil
  then show ?case by (simp add: sizes_rel_def)
next
  case (Cons i "is")
  obtain j1 v1 where r1: "randbelow (Suc i) w1 = (j1, v1)" by (cases "randbelow (Suc i) w1")
  obtain j2 v2 where r2: "randbelow (Suc i) w2 = (j2, v2)" by (cases "randbelow (Suc i) w2")
  from randbelow_same [OF Cons.prems r1 r2] have j: "j1 = j2" and v: "same_random_state v1 v2"
    by simp_all
  from Cons.IH [OF v, of "x[i := x ! j1, j1 := x ! i]"] show ?case by (simp add: r1 r2 j)
qed

lemma random_shuffle_same:
  "same_random_state w1 w2 \<Longrightarrow> sizes_rel (random_shuffle x w1) (random_shuffle x w2)"
  unfolding random_shuffle_def by (rule shuffle_loop_same)

lemma add_room_same:
  "same_up_to_ids l1 l2 \<Longrightarrow> forget_id r1 = forget_id r2 \<Longrightarrow>
     same_up_to_ids (Layout_add_room l1 r1) (Layout_add_room l2 r2)"
  by (simp add: same_up_to_ids_iff Layout_add_room_def)

lemma add_hallway_same:
  "same_up_to_ids l1 l2 \<Longrightarrow> same_up_to_ids (Layout_add_hallway l1 h) (Layout_add_hallway l2 h)"
  by (simp add: same_up_to_ids_iff Layout_add_hallway_def)

lemma list_ex_bounds:
  assumes "map bounds rs1 = map bounds rs2"
  shows "list_ex (\<lambda>room. Q (bounds room)) rs1 = list_ex (\<lambda>room. Q (bounds room)) rs2"
proof -
  have e: "list_ex (\<lambda>room. Q (bounds room)) rs = list_ex Q (map bounds rs)" for rs
    by (induction rs) simp_all
  have "list_ex (\<lambda>room. Q (bounds room)) rs1 = list_ex Q (map bounds rs1)" by (rule e)
  also have "\<dots> = list_ex Q (map bounds rs2)" by (simp only: assms)
  also have "\<dots> = list_ex (\<lambda>room. Q (bounds room)) rs2" by (rule e [symmetric])
  finally show ?thesis .
qed

lemma compact_position_ok_same:
  assumes "same_up_to_ids l1 l2"
  shows "compact_position_ok gen l1 w h = compact_position_ok gen l2 w h"
proof
  fix cell :: "nat \<times> nat"
  from assms have b: "layout_bounds l1 = layout_bounds l2"
    and f: "map forget_id (rooms l1) = map forget_id (rooms l2)"
    by (simp_all add: same_up_to_ids_iff)
  from f have r: "map bounds (rooms l1) = map bounds (rooms l2)" by (rule forget_bounds)
  obtain row col where c: "cell = (row, col)" by (cases cell)
  show "compact_position_ok gen l1 w h cell = compact_position_ok gen l2 w h cell"
    unfolding compact_position_ok_def c b Let_def prod.case
    by (simp only: list_ex_bounds [OF r])
qed

lemma compact_place_room_same:
  assumes "same_up_to_ids l1 l2" "same_random_state w1 w2"
  shows "layout_rel (compact_place_room gen l1 rt w h w1) (compact_place_room gen l2 rt w h w2)"
proof -
  from assms(1) have b: "layout_bounds l1 = layout_bounds l2" by (simp add: same_up_to_ids_iff)
  note ok = compact_position_ok_same [OF assms(1), of gen w h]
  let ?cells = "List.product (py_range (py_int (height (layout_bounds l2) / 1.0)))
                  (py_range (py_int (width (layout_bounds l2) / 1.0)))"
  show ?thesis
  proof (cases "find (compact_position_ok gen l2 w h) ?cells")
    case None
    then show ?thesis using assms
      unfolding compact_place_room_def Let_def b ok by (simp add: layout_rel_def)
  next
    case (Some cell)
    obtain row col where c: "cell = (row, col)" by (cases cell)
    let ?rect = "Rectangle_init (rect_x (layout_bounds l2) + real col * 1.0 + wall_thickness (gen_config gen))
        (rect_y (layout_bounds l2) + real row * 1.0 + wall_thickness (gen_config gen)) w h"
    obtain r1 v1 where n1: "Room_new rt ?rect 0 None w1 = (r1, v1)" by (cases "Room_new rt ?rect 0 None w1")
    obtain r2 v2 where n2: "Room_new rt ?rect 0 None w2 = (r2, v2)" by (cases "Room_new rt ?rect 0 None w2")
    from Room_new_same [OF assms(2) n1 n2] add_room_same [OF assms(1), of r1 r2]
    have "layout_rel (Layout_add_room l1 r1, v1) (Layout_add_room l2 r2, v2)"
      by (simp add: layout_rel_def)
    then show ?thesis
      unfolding compact_place_room_def Let_def b ok Some c option.case prod.case n1 n2 .
  qed
qed

lemma place_room_body_same:
  assumes "place_rel s1 s2"
  shows "place_rel (place_room_body gen s1 item) (place_room_body gen s2 item)"
proof -
  obtain l1 sp w1 l2 w2 where s: "s1 = (l1, sp, w1)" "s2 = (l2, sp, w2)"
    and l: "same_up_to_ids l1 l2" and w: "same_random_state w1 w2"
    using assms by (cases s1, cases s2) (auto simp: place_rel_def)
  obtain rt wd ht where i: "item = (rt, wd, ht)" by (cases item)
  show ?thesis
  proof (cases "first_fit gen sp wd ht")
    case None
    obtain a1 v1 where c1: "compact_place_room gen l1 rt wd ht w1 = (a1, v1)"
      by (cases "compact_place_room gen l1 rt wd ht w1")
    obtain a2 v2 where c2: "compact_place_room gen l2 rt wd ht w2 = (a2, v2)"
      by (cases "compact_place_room gen l2 rt wd ht w2")
    from compact_place_room_same [OF l w, of gen rt wd ht] c1 c2
    have "place_rel (a1, sp, v1) (a2, sp, v2)" by (simp add: layout_rel_def place_rel_def)
    then show ?thesis
      unfolding place_room_body_def s i prod.case None option.case c1 c2 .
  next
    case (Some f)
    obtain before space after where f: "f = (before, space, after)" by (cases f)
    obtain u1 v1 where a1: "random_random w1 = (u1, v1)" by (cases "random_random w1")
    obtain u2 v2 where a2: "random_random w2 = (u2, v2)" by (cases "random_random w2")
    from random_random_same [OF w a1 a2] have u: "u1 = u2" and v: "same_random_state v1 v2" by simp_all
    obtain x1 y1 where b1: "random_random v1 = (x1, y1)" by (cases "random_random v1")
    obtain x2 y2 where b2: "random_random v2 = (x2, y2)" by (cases "random_random v2")
    from random_random_same [OF v b1 b2] have x: "x1 = x2" and y: "same_random_state y1 y2" by simp_all
    let ?rect = "Rectangle_init
       (rect_x space + wall_thickness (gen_config gen) + u2 * (width space - wd - 2 * wall_thickness (gen_config gen)))
       (rect_y space + wall_thickness (gen_config gen) + x2 * (height space - ht - 2 * wall_thickness (gen_config gen)))
       wd ht"
    obtain r1 z1 where n1: "Room_new rt ?rect 0 None y1 = (r1, z1)" by (cases "Room_new rt ?rect 0 None y1")
    obtain r2 z2 where n2: "Room_new rt ?rect 0 None y2 = (r2, z2)" by (cases "Room_new rt ?rect 0 None y2")
    from Room_new_same [OF y n1 n2] add_room_same [OF l, of r1 r2]
    have "place_rel (Layout_add_room l1 r1, before @ after @ split_space gen space ?rect, z1)
            (Layout_add_room l2 r2, before @ after @ split_space gen space ?rect, z2)"
      by (simp add: place_rel_def)
    then show ?thesis
      unfolding place_room_body_def s i prod.case Some f option.case choose_position_in_space_def
        Let_def a1 a2 b1 b2 u x n1 n2 .
  qed
qed

lemma place_rooms_same:
  assumes "same_up_to_ids l1 l2" "same_random_state w1 w2"
  shows "layout_rel (place_rooms_rectangular_split gen l1 items w1)
           (place_rooms_rectangular_split gen l2 items w2)"
proof -
  from assms have "place_rel (l1, [layout_bounds l1], w1) (l2, [layout_bounds l2], w2)"
    by (simp add: place_rel_def same_up_to_ids_iff)
  then have r: "place_rel (foldl (place_room_body gen) (l1, [layout_bounds l1], w1) items)
               (foldl (place_room_body gen) (l2, [layout_bounds l2], w2) items)"
    by (rule foldl_rel) (rule place_room_body_same)
  obtain a1 sp1 v1 where f1: "foldl (place_room_body gen) (l1, [layout_bounds l1], w1) items = (a1, sp1, v1)"
    by (cases "foldl (place_room_body gen) (l1, [layout_bounds l1], w1) items")
  obtain a2 sp2 v2 where f2: "foldl (place_room_body gen) (l2, [layout_bounds l2], w2) items = (a2, sp2, v2)"
    by (cases "foldl (place_room_body gen) (l2, [layout_bounds l2], w2) items")
  from r show ?thesis
    by (simp add: place_rooms_rectangular_split_def f1 f2 place_rel_def layout_rel_def)
qed

lemma foldl_rel2:
  assumes "list_all2 Q xs ys" "R s1 s2"
    "\<And>a b s1 s2. Q a b \<Longrightarrow> R s1 s2 \<Longrightarrow> R (f s1 a) (g s2 b)"
  shows "R (foldl f s1 xs) (foldl g s2 ys)"
  using assms(1,2)
proof (induction arbitrary: s1 s2 rule: list_all2_induct)
  case Nil
  then show ?case by simp
next
  case (Cons x xs y ys)
  from assms(3) [OF Cons.hyps(1) Cons.prems] Cons.IH show ?case by simp
qed

lemma forget_all2:
  "map forget_id rs1 = map forget_id rs2 \<Longrightarrow> list_all2 (\<lambda>a b. forget_id a = forget_id b) rs1 rs2"
proof (induction rs1 arbitrary: rs2)
  case Nil
  then show ?case by simp
next
  case (Cons r rs1)
  then show ?case by (cases rs2) simp_all
qed

lemma forget_filter_type:
  "map forget_id (filter (\<lambda>room. room_type room = t) rs) =
   filter (\<lambda>room. room_type room = t) (map forget_id rs)"
  by (induction rs) (simp_all add: forget_id_def)

lemma forget_without_first:
  "map forget_id (without_first (\<lambda>room. room_type room = t) rs) =
   without_first (\<lambda>room. room_type room = t) (map forget_id rs)"
  by (induction rs) (simp_all add: forget_id_def)

lemma hallway_step_same:
  assumes "layout_rel s1 s2" "bounds m1 = bounds m2" "forget_id r1 = forget_id r2"
  shows "layout_rel (hallway_step hw m1 s1 r1) (hallway_step hw m2 s2 r2)"
proof -
  obtain l1 w1 l2 w2 where s: "s1 = (l1, w1)" "s2 = (l2, w2)" by (cases s1, cases s2)
  with assms(1) have l: "same_up_to_ids l1 l2" and w: "same_random_state w1 w2"
    by (simp_all add: layout_rel_def)
  from forget_id_fields [OF assms(3)] have b: "bounds r1 = bounds r2" by simp
  obtain u1 v1 where a1: "random_random w1 = (u1, v1)" by (cases "random_random w1")
  obtain u2 v2 where a2: "random_random w2 = (u2, v2)" by (cases "random_random w2")
  from random_random_same [OF w a1 a2] l show ?thesis
    by (simp add: hallway_step_def s a1 a2 layout_rel_def add_hallway_same assms(2) b)
qed

lemma add_hallways_same:
  assumes "same_up_to_ids l1 l2" "same_random_state w1 w2"
  shows "layout_rel (add_hallways gen l1 w1) (add_hallways gen l2 w2)"
proof -
  let ?P = "\<lambda>room. room_type room = LIVING_ROOM"
  from assms(1) have f: "map forget_id (rooms l1) = map forget_id (rooms l2)"
    by (simp add: same_up_to_ids_iff)
  then have len: "length (rooms l1) = length (rooms l2)" by (rule map_eq_imp_length_eq)
  have m: "map forget_id (filter ?P (rooms l1)) = map forget_id (filter ?P (rooms l2))"
    by (simp only: forget_filter_type f)
  have "map forget_id (without_first ?P (rooms l1)) = map forget_id (without_first ?P (rooms l2))"
    by (simp only: forget_without_first f)
  then have o: "list_all2 (\<lambda>a b. forget_id a = forget_id b)
                  (without_first ?P (rooms l1)) (without_first ?P (rooms l2))"
    by (rule forget_all2)
  have i: "layout_rel (l1, w1) (l2, w2)" using assms by (simp add: layout_rel_def)
  show ?thesis
  proof (cases "filter ?P (rooms l1)")
    case Nil
    with m have "filter ?P (rooms l2) = []" by simp
    with Nil i show ?thesis
      by (simp add: add_hallways_def Layout_get_rooms_by_type_def Let_def len)
  next
    case (Cons m1 rest1)
    with m obtain m2 rest2 where c2: "filter ?P (rooms l2) = m2 # rest2"
      and mm: "forget_id m1 = forget_id m2"
      by (cases "filter ?P (rooms l2)") auto
    from forget_id_fields [OF mm] have bm: "bounds m1 = bounds m2" by simp
    have "layout_rel
        (foldl (hallway_step (min_hallway_width (gen_constraints gen)) m1) (l1, w1)
           (without_first ?P (rooms l1)))
        (foldl (hallway_step (min_hallway_width (gen_constraints gen)) m2) (l2, w2)
           (without_first ?P (rooms l2)))"
      using o i by (rule foldl_rel2) (rule hallway_step_same [OF _ bm])
    with i Cons c2 show ?thesis
      by (simp add: add_hallways_def Layout_get_rooms_by_type_def Let_def len)
  qed
qed

text \<open>
  C9, as amended. Two runs of \<open>generate_random_layout\<close> from the same random state, with the
  same generator, footprint and requirements, both return, and their layouts are the same up to
  the ids of the rooms; the random states they leave are the same too.
\<close>

theorem generate_same_up_to_ids:
  assumes "same_random_state w1 w2"
  shows "\<exists>l1 v1 l2 v2.
     generate_random_layout gen bnds reqs w1 = Inr (l1, v1) \<and>
     generate_random_layout gen bnds reqs w2 = Inr (l2, v2) \<and>
     same_up_to_ids l1 l2 \<and> same_random_state v1 v2"
proof -
  from sample_room_sizes_ok [of reqs w1] obtain rs1 a1
    where s1: "sample_room_sizes reqs w1 = Inr (rs1, a1)" by blast
  from sample_room_sizes_ok [of reqs w2] obtain rs2 a2
    where s2: "sample_room_sizes reqs w2 = Inr (rs2, a2)" by blast
  from sample_room_sizes_same [OF assms, of reqs] s1 s2
  have rs: "rs1 = rs2" and a: "same_random_state a1 a2" by (simp_all add: sizes_rel_def)
  obtain sh1 b1 where h1: "random_shuffle rs2 a1 = (sh1, b1)" by (cases "random_shuffle rs2 a1")
  obtain sh2 b2 where h2: "random_shuffle rs2 a2 = (sh2, b2)" by (cases "random_shuffle rs2 a2")
  from random_shuffle_same [OF a, of rs2] h1 h2
  have sh: "sh1 = sh2" and b: "same_random_state b1 b2" by (simp_all add: sizes_rel_def)
  have e: "same_up_to_ids (Layout_init bnds) (Layout_init bnds)" by (simp add: same_up_to_ids_def)
  obtain p1 c1 where q1: "place_rooms_rectangular_split gen (Layout_init bnds) sh2 b1 = (p1, c1)"
    by (cases "place_rooms_rectangular_split gen (Layout_init bnds) sh2 b1")
  obtain p2 c2 where q2: "place_rooms_rectangular_split gen (Layout_init bnds) sh2 b2 = (p2, c2)"
    by (cases "place_rooms_rectangular_split gen (Layout_init bnds) sh2 b2")
  from place_rooms_same [OF e b, of gen sh2] q1 q2
  have p: "same_up_to_ids p1 p2" and c: "same_random_state c1 c2" by (simp_all add: layout_rel_def)
  obtain l1 v1 where g1: "add_hallways gen p1 c1 = (l1, v1)" by (cases "add_hallways gen p1 c1")
  obtain l2 v2 where g2: "add_hallways gen p2 c2 = (l2, v2)" by (cases "add_hallways gen p2 c2")
  from add_hallways_same [OF p c, of gen] g1 g2
  have "same_up_to_ids l1 l2" "same_random_state v1 v2" by (simp_all add: layout_rel_def)
  then show ?thesis
    by (simp add: generate_random_layout_def s1 s2 rs h1 h2 sh q1 q2 g1 g2)
qed

theorem generate_same_up_to_ids_witness:
  "same_random_state (kitchen_world (\<lambda>n. 100)) (kitchen_world (\<lambda>n. 200)) \<and>
   (\<exists>l1 v1 l2 v2.
     generate_random_layout default_generator (Rectangle_init 0 0 20 15) [(KITCHEN, 1)]
       (kitchen_world (\<lambda>n. 100)) = Inr (l1, v1) \<and>
     generate_random_layout default_generator (Rectangle_init 0 0 20 15) [(KITCHEN, 1)]
       (kitchen_world (\<lambda>n. 200)) = Inr (l2, v2) \<and>
     same_up_to_ids l1 l2 \<and> same_random_state v1 v2)"
proof -
  have s: "same_random_state (kitchen_world (\<lambda>n. 100)) (kitchen_world (\<lambda>n. 200))"
    by (simp add: same_random_state_def kitchen_world_def)
  from generate_same_up_to_ids [OF s] s show ?thesis by blast
qed

text \<open>
  C9, as stated, fails: from the same random state, one requested kitchen is placed at the same
  position, but its id is the address of the object, 100 in one run and 200 in the other, so
  the two room lists differ.
\<close>

theorem room_ids_counterexample:
  "same_random_state (kitchen_world (\<lambda>n. 100)) (kitchen_world (\<lambda>n. 200)) \<and>
   map_sum id (\<lambda>r. rooms (fst r))
     (generate_random_layout default_generator (Rectangle_init 0 0 20 15) [(KITCHEN, 1)]
        (kitchen_world (\<lambda>n. 100))) = Inr [Room_init 100 KITCHEN (Rectangle_init (1/5) (1/5) 3 2) 0 None] \<and>
   map_sum id (\<lambda>r. rooms (fst r))
     (generate_random_layout default_generator (Rectangle_init 0 0 20 15) [(KITCHEN, 1)]
        (kitchen_world (\<lambda>n. 200))) = Inr [Room_init 200 KITCHEN (Rectangle_init (1/5) (1/5) 3 2) 0 None] \<and>
   Room_init 100 KITCHEN (Rectangle_init (1/5) (1/5) 3 2) 0 None \<noteq>
   Room_init 200 KITCHEN (Rectangle_init (1/5) (1/5) 3 2) 0 None"
proof -
  have s: "same_random_state (kitchen_world (\<lambda>n. 100)) (kitchen_world (\<lambda>n. 200))"
    by (simp add: same_random_state_def kitchen_world_def)
  have d: "Room_init 100 KITCHEN (Rectangle_init (1/5) (1/5) 3 2) 0 None \<noteq>
     Room_init 200 KITCHEN (Rectangle_init (1/5) (1/5) 3 2) 0 None"
    by (simp add: Room_init_def)
  show ?thesis
    unfolding kitchen_generated using s d by (simp add: Layout_init_def)
qed

end
